theory Spec2Isabelle
  imports Complex_Main
begin

section \<open>Core data models (src/core/types.py)\<close>

text \<open>
  The models of \<^verbatim>\<open>src/core/types.py\<close> are pydantic classes. Constructing one validates
  the keyword arguments: a required field (declared with \<^verbatim>\<open>...\<close>) that is absent and a
  number outside its \<^verbatim>\<open>ge\<close>/\<^verbatim>\<open>le\<close> bounds are reported, and the constructor raises
  one validation error that lists them in field order; otherwise the object is built, absent
  fields taking their declared defaults. A keyword argument that may be absent is an
  \<open>option\<close> here, and the constructor returns the error list on the left or the object on
  the right. Python floats are modelled as reals: the checks are order comparisons only.
\<close>

datatype field_error =
    Missing string
  | Greater_than_equal string
  | Less_than_equal string

type_synonym ValidationError = "field_error list"

definition required :: "string \<Rightarrow> 'a option \<Rightarrow> field_error list" where
  "required name v = (case v of None \<Rightarrow> [Missing name] | Some _ \<Rightarrow> [])"

text \<open>\<^verbatim>\<open>Field(..., ge=0.0, le=1.0)\<close>: the lower bound is checked first.\<close>

definition ge_le :: "string \<Rightarrow> real \<Rightarrow> field_error list" where
  "ge_le name v =
     (if \<not> 0 \<le> v then [Greater_than_equal name]
      else if \<not> v \<le> 1 then [Less_than_equal name]
      else [])"

definition optional_ge_le :: "string \<Rightarrow> real option \<Rightarrow> field_error list" where
  "optional_ge_le name v = (case v of None \<Rightarrow> [] | Some x \<Rightarrow> ge_le name x)"

definition required_ge_le :: "string \<Rightarrow> real option \<Rightarrow> field_error list" where
  "required_ge_le name v = (case v of None \<Rightarrow> [Missing name] | Some x \<Rightarrow> ge_le name x)"

definition field_default :: "'a \<Rightarrow> 'a option \<Rightarrow> 'a" where
  "field_default d v = (case v of None \<Rightarrow> d | Some x \<Rightarrow> x)"

subsection \<open>GridCoordinate\<close>

record GridCoordinate =
  cell :: string
  offset_x :: real
  offset_y :: real
  confidence :: real
  refined :: bool

text \<open>
  \<^verbatim>\<open>
  cell: str = Field(...)
  offset_x: float = Field(0.5, ge=0.0, le=1.0)
  offset_y: float = Field(0.5, ge=0.0, le=1.0)
  confidence: float = Field(..., ge=0.0, le=1.0)
  refined: bool = Field(False)
  \<close>
\<close>

definition GridCoordinate_init ::
  "string option \<Rightarrow> real option \<Rightarrow> real option \<Rightarrow> real option \<Rightarrow> bool option
     \<Rightarrow> ValidationError + GridCoordinate" where
  "GridCoordinate_init kw_cell kw_offset_x kw_offset_y kw_confidence kw_refined =
     (let errors = required ''cell'' kw_cell
                 @ optional_ge_le ''offset_x'' kw_offset_x
                 @ optional_ge_le ''offset_y'' kw_offset_y
                 @ required_ge_le ''confidence'' kw_confidence
      in case (kw_cell, kw_confidence) of
           (Some c, Some cf) \<Rightarrow>
             if errors = [] then
               Inr \<lparr>cell = c,
                    offset_x = field_default 0.5 kw_offset_x,
                    offset_y = field_default 0.5 kw_offset_y,
                    confidence = cf,
                    refined = field_default False kw_refined\<rparr>
             else Inl errors
         | _ \<Rightarrow> Inl errors)"

text \<open>A keyword argument lies outside the unit interval.\<close>

definition outside_unit :: "real option \<Rightarrow> bool" where
  "outside_unit v = (case v of None \<Rightarrow> False | Some x \<Rightarrow> x < 0 \<or> 1 < x)"

text \<open>
  The class declares no \<^verbatim>\<open>validate_assignment\<close>, so the bounds of a field are checked by the
  constructor only: the assignment \<^verbatim>\<open>g.confidence = v\<close> to an existing object stores the value
  as it is.
\<close>

definition GridCoordinate_set_confidence :: "GridCoordinate \<Rightarrow> real \<Rightarrow> GridCoordinate" where
  "GridCoordinate_set_confidence g v = g\<lparr>confidence := v\<rparr>"

subsection \<open>Test plans and test state\<close>

datatype TestStatus = PENDING | IN_PROGRESS | COMPLETED | FAILED | SKIPPED | BLOCKED

text \<open>\<^verbatim>\<open>TestStatus\<close> is a \<^verbatim>\<open>str\<close> enumeration: a member compares equal to its value.\<close>

fun TestStatus_value :: "TestStatus \<Rightarrow> string" where
  "TestStatus_value PENDING = ''pending''"
| "TestStatus_value IN_PROGRESS = ''in_progress''"
| "TestStatus_value COMPLETED = ''completed''"
| "TestStatus_value FAILED = ''failed''"
| "TestStatus_value SKIPPED = ''skipped''"
| "TestStatus_value BLOCKED = ''blocked''"

datatype ActionType =
    CLICK | TYPE | SCROLL | NAVIGATE | WAIT | SCREENSHOT | ASSERT | KEY_PRESS
  | SCROLL_TO_ELEMENT | SCROLL_BY_PIXELS | SCROLL_TO_TOP | SCROLL_TO_BOTTOM | SCROLL_HORIZONTAL

record ActionInstruction =
  action_type :: ActionType
  description :: string
  target :: "string option"
  value' :: "string option"
  expected_outcome :: string
  timeout :: int

type_synonym UUID = nat

record TestStep =
  step_id :: UUID
  step_number :: int
  description :: string
  action_instruction :: ActionInstruction
  dependencies :: "UUID list"
  optional :: bool
  max_retries :: int

record TestPlan =
  plan_id :: UUID
  name :: string
  description :: string
  requirements :: string
  steps :: "TestStep list"
  created_at :: nat
  estimated_duration_seconds :: "int option"
  tags :: "string list"

text \<open>
  \<^verbatim>\<open>
  class TestState(BaseModel):
      test_plan: TestPlan
      current_step: Optional[TestStep] = None
      completed_steps: List[UUID] = Field(default_factory=list)
      failed_steps: List[UUID] = Field(default_factory=list)
      skipped_steps: List[UUID] = Field(default_factory=list)
      status: TestStatus = TestStatus.PENDING
      start_time: Optional[datetime] = None
      end_time: Optional[datetime] = None
      error_count: int = 0
      warning_count: int = 0
      context: Dict[str, Any] = Field(default_factory=dict)
  \<close>
  The values of the context are kept as strings.
\<close>

record TestState =
  test_plan :: TestPlan
  current_step :: "TestStep option"
  completed_steps :: "UUID list"
  failed_steps :: "UUID list"
  skipped_steps :: "UUID list"
  status :: TestStatus
  start_time :: "nat option"
  end_time :: "nat option"
  error_count :: int
  warning_count :: int
  context' :: "(string \<times> string) list"

text \<open>\<^verbatim>\<open>TestState(test_plan=plan)\<close>: every other field takes its default.\<close>

definition TestState_init :: "TestPlan \<Rightarrow> TestState" where
  "TestState_init plan =
     \<lparr>test_plan = plan, current_step = None, completed_steps = [], failed_steps = [],
      skipped_steps = [], status = PENDING, start_time = None, end_time = None,
      error_count = 0, warning_count = 0, context' = []\<rparr>"

subsection \<open>Scroll models\<close>

datatype ScrollDirection = UP | DOWN | LEFT | RIGHT

datatype VisibilityStatus = FULLY_VISIBLE | PARTIALLY_VISIBLE | NOT_VISIBLE

text \<open>
  \<^verbatim>\<open>
  class ScrollParameters(BaseModel):
      direction: Optional[ScrollDirection] = Field(None)
      pixels: Optional[int] = Field(None)
      target_element: Optional[str] = Field(None)
      max_attempts: int = Field(15)
  \<close>
\<close>

record ScrollParameters =
  direction :: "ScrollDirection option"
  pixels :: "int option"
  target_element :: "string option"
  max_attempts :: int

definition ScrollParameters_init ::
  "ScrollDirection option \<Rightarrow> int option \<Rightarrow> string option \<Rightarrow> int option \<Rightarrow> ScrollParameters" where
  "ScrollParameters_init kw_direction kw_pixels kw_target_element kw_max_attempts =
     \<lparr>direction = kw_direction,
      pixels = kw_pixels,
      target_element = kw_target_element,
      max_attempts = field_default 15 kw_max_attempts\<rparr>"

text \<open>
  \<^verbatim>\<open>
  class VisibilityResult(BaseModel):
      status: VisibilityStatus
      coordinates: Optional[GridCoordinate] = Field(None)
      visible_percentage: Optional[int] = Field(None)
      suggested_direction: Optional[ScrollDirection] = Field(None)
      direction_confidence: float = Field(0.0, ge=0.0, le=1.0)
      notes: str = Field("")
  \<close>
\<close>

record VisibilityResult =
  status :: VisibilityStatus
  coordinates :: "GridCoordinate option"
  visible_percentage :: "int option"
  suggested_direction :: "ScrollDirection option"
  direction_confidence :: real
  notes' :: string

text \<open>
  \<^verbatim>\<open>
  class ScrollAction(BaseModel):
      direction: ScrollDirection
      distance: int = Field(...)
      is_correction: bool = Field(False)
      executed_at: Optional[datetime] = None
  \<close>
  A datetime is a number of ticks.
\<close>

record ScrollAction =
  direction :: ScrollDirection
  distance :: int
  is_correction :: bool
  executed_at :: "nat option"

text \<open>
  \<^verbatim>\<open>
  class ScrollState(BaseModel):
      target_element: str
      attempts: int = 0
      max_attempts: int = 15
      scroll_history: List[ScrollAction] = Field(default_factory=list)
      last_direction: Optional[ScrollDirection] = None
      overshoot_detected: bool = False
      element_partially_visible: bool = False
      last_screenshot_hash: Optional[str] = None
  \<close>
\<close>

record ScrollState =
  target_element :: string
  attempts :: int
  max_attempts :: int
  scroll_history :: "ScrollAction list"
  last_direction :: "ScrollDirection option"
  overshoot_detected :: bool
  element_partially_visible :: bool
  last_screenshot_hash :: "string option"

definition ScrollState_init ::
  "string option \<Rightarrow> int option \<Rightarrow> int option \<Rightarrow> ScrollAction list option
     \<Rightarrow> ScrollDirection option \<Rightarrow> bool option \<Rightarrow> bool option \<Rightarrow> string option
     \<Rightarrow> ValidationError + ScrollState" where
  "ScrollState_init kw_target_element kw_attempts kw_max_attempts kw_scroll_history
       kw_last_direction kw_overshoot_detected kw_element_partially_visible
       kw_last_screenshot_hash =
     (case kw_target_element of
        None \<Rightarrow> Inl (required ''target_element'' kw_target_element)
      | Some t \<Rightarrow>
          Inr \<lparr>target_element = t,
               attempts = field_default 0 kw_attempts,
               max_attempts = field_default 15 kw_max_attempts,
               scroll_history = field_default [] kw_scroll_history,
               last_direction = kw_last_direction,
               overshoot_detected = field_default False kw_overshoot_detected,
               element_partially_visible = field_default False kw_element_partially_visible,
               last_screenshot_hash = kw_last_screenshot_hash\<rparr>)"

text \<open>
  \<^verbatim>\<open>
  class ScrollResult(BaseModel):
      success: bool
      action_type: str = "scroll_to_element"
      coordinates: Optional[GridCoordinate] = None
      confidence: Optional[float] = None
      attempts: Optional[int] = None
      total_scroll_distance: Optional[int] = None
      error: Optional[str] = None
      scroll_history: Optional[List[Dict[str, Any]]] = None
  \<close>
  The history is kept as the list of the scroll actions, not of their dictionaries.
\<close>

record ScrollResult =
  success :: bool
  action_type :: string
  coordinates :: "GridCoordinate option"
  confidence :: "real option"
  attempts :: "int option"
  total_scroll_distance :: "int option"
  error :: "string option"
  scroll_history :: "ScrollAction list option"

section \<open>The entry point (src/main.py)\<close>

subsection \<open>Exceptions\<close>

text \<open>
  The exceptions that the entry point distinguishes. \<open>Exception\<close> stands for an instance
  of any other class derived from \<^verbatim>\<open>Exception\<close>; \<open>KeyboardInterrupt\<close>, \<open>SystemExit\<close> and
  \<open>CancelledError\<close> derive from \<^verbatim>\<open>BaseException\<close> only, so \<^verbatim>\<open>except Exception\<close> does not
  catch them.
\<close>

datatype exn =
    TimeoutError
  | KeyboardInterrupt
  | SystemExit int
  | CancelledError
  | FileNotFoundError
  | JSONDecodeError
  | ValueError
  | TypeError
  | MarkupError
  | Exception

fun isinstance_Exception :: "exn \<Rightarrow> bool" where
  "isinstance_Exception KeyboardInterrupt = False"
| "isinstance_Exception (SystemExit _) = False"
| "isinstance_Exception CancelledError = False"
| "isinstance_Exception _ = True"

subsection \<open>The console and the collaborators\<close>

text \<open>
  The lines that \<^verbatim>\<open>load_scenario\<close> and \<^verbatim>\<open>run_test\<close> print with \<^verbatim>\<open>console.print\<close>, one name
  for each statement of the source. The console renders the text as markup, so a line
  that holds text from outside (a path, a URL, the requirements, the message of an
  exception) raises \<open>MarkupError\<close> when that text holds a closing tag; printing is a call
  like any other.
\<close>

datatype console_line =
    Scenario_file_not_found
  | Invalid_JSON_in_scenario_file
  | Error_loading_scenario
  | Debug_logging_initialized
  | Banner
  | Berserk_mode_activated
  | Running_in_fully_autonomous_mode
  | Navigating_to
  | Generating_test_plan
  | Test_plan_table
  | Executing_test
  | Test_execution_summary
  | Status
  | Total_steps
  | Completed_steps
  | Failed_steps
  | Skipped_steps
  | Generating_report
  | Report_saved_to
  | Debug_information
  | Test_run_id
  | Debug_directory
  | AI_interactions_logged
  | Screenshots_saved
  | Test_execution_timed_out
  | Test_execution_interrupted_by_user
  | Error_during_test_execution

text \<open>
  The calls that the entry point makes, named after the source. The progress display
  (\<^verbatim>\<open>Progress\<close>, \<^verbatim>\<open>add_task\<close>, \<^verbatim>\<open>update\<close>) and the construction of the table are left out:
  they print nothing by themselves and the table is rendered by the print that follows.
\<close>

datatype call_name =
    initialize_debug_logger
  | BrowserController
  | browser_controller_start
  | MessageBus
  | StateManager
  | WorkflowCoordinator
  | coordinator_initialize
  | browser_controller_navigate
  | coordinator_generate_test_plan
  | wait_for_execute_test_from_requirements
  | output_dir_mkdir
  | TestReporter
  | reporter_generate_report
  | debug_logger_get_debug_summary
  | coordinator_cleanup
  | browser_controller_stop
  | console_print console_line
  | logger_exception

text \<open>
  The collaborators are outside the functions: what each call does, raise an exception or
  return, is given.
\<close>

type_synonym outcomes = "call_name \<Rightarrow> exn option"

subsection \<open>load_scenario\<close>

text \<open>What \<^verbatim>\<open>json.load\<close> returns.\<close>

datatype json =
    JNull
  | JBool bool
  | JInt int
  | JFloat real
  | JString string
  | JArray "json list"
  | JObject "(string \<times> json) list"

text \<open>Python's \<^verbatim>\<open>p in s\<close> on two strings: \<open>p\<close> occurs in \<open>s\<close>.\<close>

fun startswith :: "string \<Rightarrow> string \<Rightarrow> bool" where
  "startswith s [] = True"
| "startswith [] (p # ps) = False"
| "startswith (c # s) (p # ps) = (c = p \<and> startswith s ps)"

fun str_contains :: "string \<Rightarrow> string \<Rightarrow> bool" where
  "str_contains [] p = (p = [])"
| "str_contains (c # s) p = (startswith (c # s) p \<or> str_contains s p)"

text \<open>
  \<^verbatim>\<open>f in scenario\<close> for a string \<open>f\<close>, on whatever \<^verbatim>\<open>json.load\<close> returned: a key of a
  dict, an element of a list, a substring of a string; \<^verbatim>\<open>None\<close>, booleans and numbers
  are not containers and raise \<^verbatim>\<open>TypeError\<close>.
\<close>

fun contains :: "json \<Rightarrow> string \<Rightarrow> exn + bool" where
  "contains (JObject kvs) f = Inr (f \<in> set (map fst kvs))"
| "contains (JArray xs) f = Inr (JString f \<in> set xs)"
| "contains (JString s) f = Inr (str_contains s f)"
| "contains JNull f = Inl TypeError"
| "contains (JBool b) f = Inl TypeError"
| "contains (JInt i) f = Inl TypeError"
| "contains (JFloat x) f = Inl TypeError"

definition required_fields :: "string list" where
  "required_fields = [''name'', ''requirements'', ''url'']"

text \<open>\<^verbatim>\<open>[f for f in required_fields if f not in scenario]\<close>\<close>

fun missing_fields :: "json \<Rightarrow> string list \<Rightarrow> exn + string list" where
  "missing_fields scenario [] = Inr []"
| "missing_fields scenario (f # fs) =
     (case contains scenario f of
        Inl e \<Rightarrow> Inl e
      | Inr present \<Rightarrow>
          (case missing_fields scenario fs of
             Inl e \<Rightarrow> Inl e
           | Inr ms \<Rightarrow> Inr (if \<not> present then f # ms else ms)))"

text \<open>
  The \<^verbatim>\<open>try\<close> block. Its argument is the outcome of opening the file and of
  \<^verbatim>\<open>json.load\<close>: the exception raised (\<open>FileNotFoundError\<close>, \<open>JSONDecodeError\<close>, another)
  or the value read.
\<close>

definition load_scenario_try :: "exn + json \<Rightarrow> exn + json" where
  "load_scenario_try loaded =
     (case loaded of
        Inl e \<Rightarrow> Inl e
      | Inr scenario \<Rightarrow>
          (case missing_fields scenario required_fields of
             Inl e \<Rightarrow> Inl e
           | Inr missing \<Rightarrow> if missing \<noteq> [] then Inl ValueError else Inr scenario))"

text \<open>
  \<^verbatim>\<open>
  except FileNotFoundError:
      console.print(f"[red]Error: Scenario file not found: {scenario_path}[/red]")
      sys.exit(1)
  except json.JSONDecodeError as e:
      console.print(f"[red]Error: Invalid JSON in scenario file: {e}[/red]")
      sys.exit(1)
  except Exception as e:
      console.print(f"[red]Error loading scenario: {e}[/red]")
      sys.exit(1)
  \<close>
  A handler prints one line and calls \<^verbatim>\<open>sys.exit(1)\<close>, which raises \<^verbatim>\<open>SystemExit(1)\<close>; when
  the print raises, its exception leaves the function instead. The result is the lines
  that the function has tried to print, and either the exception that leaves it or the
  scenario returned.
\<close>

definition print_and_exit :: "outcomes \<Rightarrow> console_line \<Rightarrow> console_line list \<times> (exn + json)" where
  "print_and_exit raised line =
     ([line], Inl (case raised (console_print line) of Some x \<Rightarrow> x | None \<Rightarrow> SystemExit 1))"

definition load_scenario :: "outcomes \<Rightarrow> exn + json \<Rightarrow> console_line list \<times> (exn + json)" where
  "load_scenario raised loaded =
     (case load_scenario_try loaded of
        Inr scenario \<Rightarrow> ([], Inr scenario)
      | Inl e \<Rightarrow>
          if e = FileNotFoundError then print_and_exit raised Scenario_file_not_found
          else if e = JSONDecodeError then print_and_exit raised Invalid_JSON_in_scenario_file
          else if isinstance_Exception e then print_and_exit raised Error_loading_scenario
          else ([], Inl e))"

subsection \<open>run_test\<close>

text \<open>
  A run is determined by what each call does and by the test state that the execution
  returns when it returns (a \<open>TestState\<close> of the core data models).
  \<^verbatim>\<open>asyncio.wait_for\<close> raises \<open>TimeoutError\<close> when the execution has not finished within
  \<^verbatim>\<open>timeout\<close> seconds.
\<close>

record env =
  raises :: outcomes
  test_state :: TestState

text \<open>
  The local variables \<^verbatim>\<open>browser_controller\<close> and \<^verbatim>\<open>coordinator\<close> (\<open>True\<close> once assigned:
  both start as \<^verbatim>\<open>None\<close>, and an object assigned to them is true in a condition), and
  the log of the calls made so far, oldest first.
\<close>

record frame =
  browser_controller :: bool
  coordinator :: bool
  calls :: "call_name list"

text \<open>
  \<^verbatim>\<open>browser_controller = BrowserController(headless=headless)\<close> and
  \<^verbatim>\<open>coordinator = WorkflowCoordinator(...)\<close>: the variable is assigned when the constructor
  returns.
\<close>

definition assigned :: "call_name \<Rightarrow> frame \<Rightarrow> frame" where
  "assigned c f =
     (if c = BrowserController then f\<lparr>browser_controller := True\<rparr>
      else if c = WorkflowCoordinator then f\<lparr>coordinator := True\<rparr>
      else f)"

text \<open>
  A sequence of statements that are calls: each call is logged; the first one that raises
  ends the sequence with its exception.
\<close>

fun run_calls :: "env \<Rightarrow> call_name list \<Rightarrow> frame \<Rightarrow> exn option \<times> frame" where
  "run_calls e [] f = (None, f)"
| "run_calls e (c # cs) f =
     (case raises e c of
        Some x \<Rightarrow> (Some x, f\<lparr>calls := calls f @ [c]\<rparr>)
      | None \<Rightarrow> run_calls e cs (assigned c (f\<lparr>calls := calls f @ [c]\<rparr>)))"

text \<open>
  The calls of the \<^verbatim>\<open>try\<close> block in the order of the source (lines 195 to 336): the set-up
  up to the navigation, then either the generation of the plan or the execution, the
  summary and the report.
\<close>

definition setup_calls :: "bool \<Rightarrow> call_name list" where
  "setup_calls berserk =
     [initialize_debug_logger,
      console_print Debug_logging_initialized,
      console_print Banner] @
     (if berserk then
        [console_print Berserk_mode_activated,
         console_print Running_in_fully_autonomous_mode]
      else []) @
     [BrowserController,
      browser_controller_start,
      MessageBus,
      StateManager,
      WorkflowCoordinator,
      coordinator_initialize,
      console_print Navigating_to,
      browser_controller_navigate]"

definition plan_only_calls :: "call_name list" where
  "plan_only_calls =
     [console_print Generating_test_plan,
      coordinator_generate_test_plan,
      console_print Test_plan_table]"

definition report_calls :: "call_name list" where
  "report_calls =
     [console_print Test_execution_summary,
      console_print Status,
      console_print Total_steps,
      console_print Completed_steps,
      console_print Failed_steps,
      console_print Skipped_steps,
      output_dir_mkdir,
      console_print Generating_report,
      TestReporter,
      reporter_generate_report,
      console_print Report_saved_to,
      debug_logger_get_debug_summary,
      console_print Debug_information,
      console_print Test_run_id,
      console_print Debug_directory,
      console_print AI_interactions_logged,
      console_print Screenshots_saved]"

definition body_calls :: "bool \<Rightarrow> bool \<Rightarrow> call_name list" where
  "body_calls plan_only berserk =
     setup_calls berserk @
     (if plan_only then plan_only_calls
      else console_print Executing_test # wait_for_execute_test_from_requirements # report_calls)"

text \<open>
  The \<^verbatim>\<open>try\<close> block ends in an exception or in one of its \<^verbatim>\<open>return\<close> statements:
  \<^verbatim>\<open>return 0\<close> after the plan is shown, and
  \<^verbatim>\<open>return 0 if test_state.status == "completed" else 1\<close> at the end.
\<close>

definition run_test_try :: "env \<Rightarrow> bool \<Rightarrow> bool \<Rightarrow> frame \<Rightarrow> (exn + int) \<times> frame" where
  "run_test_try e plan_only berserk f =
     (case run_calls e (body_calls plan_only berserk) f of
        (Some x, f') \<Rightarrow> (Inl x, f')
      | (None, f') \<Rightarrow>
          (Inr (if plan_only then 0
                else if TestStatus_value (TestState.status (test_state e)) = ''completed''
                then 0 else 1),
           f'))"

text \<open>
  \<^verbatim>\<open>
  except asyncio.TimeoutError:
      console.print("Error: Test execution timed out after {timeout} seconds")
      return 2
  except KeyboardInterrupt:
      console.print("Test execution interrupted by user")
      return 130
  except Exception as e:
      console.print("Error during test execution: {e}")
      logger.exception("Test execution failed")
      return 1
  \<close>
  An exception raised by a call of a handler leaves the \<^verbatim>\<open>try\<close> statement; the other
  handlers do not catch it.
\<close>

definition handler :: "env \<Rightarrow> call_name list \<Rightarrow> int \<Rightarrow> frame \<Rightarrow> (exn + int) \<times> frame" where
  "handler e cs code f =
     (case run_calls e cs f of
        (Some x, f') \<Rightarrow> (Inl x, f')
      | (None, f') \<Rightarrow> (Inr code, f'))"

definition run_test_except :: "env \<Rightarrow> exn + int \<Rightarrow> frame \<Rightarrow> (exn + int) \<times> frame" where
  "run_test_except e r f =
     (case r of
        Inr code \<Rightarrow> (Inr code, f)
      | Inl x \<Rightarrow>
          if x = TimeoutError then
            handler e [console_print Test_execution_timed_out] 2 f
          else if x = KeyboardInterrupt then
            handler e [console_print Test_execution_interrupted_by_user] 130 f
          else if isinstance_Exception x then
            handler e [console_print Error_during_test_execution, logger_exception] 1 f
          else (Inl x, f))"

text \<open>
  \<^verbatim>\<open>
  finally:
      if coordinator:
          await coordinator.cleanup()
      if browser_controller:
          await browser_controller.stop()
  \<close>
\<close>

definition finally_calls :: "frame \<Rightarrow> call_name list" where
  "finally_calls f =
     (if coordinator f then [coordinator_cleanup] else []) @
     (if browser_controller f then [browser_controller_stop] else [])"

definition run_test_finally :: "env \<Rightarrow> frame \<Rightarrow> exn option \<times> frame" where
  "run_test_finally e f = run_calls e (finally_calls f) f"

text \<open>
  An exception raised in the \<^verbatim>\<open>finally\<close> block replaces the pending return value or
  exception; otherwise the function returns or raises what the handlers left.
\<close>

definition run_test :: "env \<Rightarrow> bool \<Rightarrow> bool \<Rightarrow> (exn + int) \<times> frame" where
  "run_test e plan_only berserk =
     (case run_test_try e plan_only berserk
             \<lparr>browser_controller = False, coordinator = False, calls = []\<rparr> of
        (r, f) \<Rightarrow>
          (case run_test_except e r f of
             (r', f') \<Rightarrow>
               (case run_test_finally e f' of
                  (Some x, f'') \<Rightarrow> (Inl x, f'')
                | (None, f'') \<Rightarrow> (r', f''))))"

text \<open>The exception of the first call in a list that raises one.\<close>

fun first_raise :: "env \<Rightarrow> call_name list \<Rightarrow> exn option" where
  "first_raise e [] = None"
| "first_raise e (c # cs) =
     (case raises e c of Some x \<Rightarrow> Some x | None \<Rightarrow> first_raise e cs)"

text \<open>
  The calls of the handlers and of the clean-up: run_test returns an exit code only when
  those of them that are made return.
\<close>

definition handler_and_cleanup_calls :: "call_name list" where
  "handler_and_cleanup_calls =
     [console_print Test_execution_timed_out,
      console_print Test_execution_interrupted_by_user,
      console_print Error_during_test_execution,
      logger_exception,
      coordinator_cleanup,
      browser_controller_stop]"

section \<open>Visual target resolution\<close>

subsection \<open>The visual locator\<close>

text \<open>
  The default of the parameter \<^verbatim>\<open>confidence_threshold\<close> of
  \<^verbatim>\<open>PromptTemplates.action_identification\<close> (src/config/agent_prompts.py), below which the
  prompt asks the oracle to recommend a refinement.
\<close>

definition confidence_threshold_default :: real where
  "confidence_threshold_default = 0.8"

datatype LocatorFailure = TargetNotFound

text \<open>
  The visual-reasoning oracle: its candidates for a target description in a screenshot, and
  its answer when asked to re-examine the region around a candidate. The requests sent to
  it are logged.
\<close>

record visual_oracle =
  candidates :: "string \<Rightarrow> string \<Rightarrow> GridCoordinate list"
  refinement :: "GridCoordinate \<Rightarrow> string \<Rightarrow> GridCoordinate"

datatype oracle_request =
    Locate_request string string
  | Refinement_request GridCoordinate string

fun is_refinement :: "oracle_request \<Rightarrow> bool" where
  "is_refinement (Refinement_request c s) = True"
| "is_refinement (Locate_request d s) = False"

text \<open>
  Modelled from the spec: \<^verbatim>\<open>locate\<close> of the Visual Locator (section 4.2), whose code is
  not among the sources. The oracle is invoked once; no candidate or several candidates
  fail with \<open>TargetNotFound\<close>; a single candidate whose confidence is below the threshold
  and that is not marked refined is sent back once for refinement, the answer is merged
  and the result is marked refined; any other candidate is returned as it is. How the
  refined answer is merged is not specified: \<open>merge\<close> is a parameter.
\<close>

definition locate ::
  "visual_oracle \<Rightarrow> (GridCoordinate \<Rightarrow> GridCoordinate \<Rightarrow> GridCoordinate) \<Rightarrow> real option
     \<Rightarrow> string \<Rightarrow> string \<Rightarrow> (LocatorFailure + GridCoordinate) \<times> oracle_request list" where
  "locate orc merge kw_threshold target_description screenshot_context =
     (let threshold = field_default confidence_threshold_default kw_threshold;
          requests = [Locate_request target_description screenshot_context]
      in case candidates orc target_description screenshot_context of
           [c] \<Rightarrow>
             if GridCoordinate.confidence c < threshold \<and> \<not> refined c then
               (Inr ((merge c (refinement orc c screenshot_context))\<lparr>refined := True\<rparr>),
                requests @ [Refinement_request c screenshot_context])
             else (Inr c, requests)
         | _ \<Rightarrow> (Inl TargetNotFound, requests))"

subsection \<open>The scroll controller\<close>

text \<open>
  Modelled from the spec: the Scroll Controller (section 4.3), whose code is not among the
  sources; only its data models \<open>ScrollState\<close>, \<open>ScrollAction\<close>, \<open>VisibilityResult\<close> and
  \<open>ScrollResult\<close> are. The definitions of this subsection follow the transition rule of the
  specification step by step.
\<close>

datatype scroll_phase = Searching | Correcting | Found | Exhausted

text \<open>
  The visual-analysis collaborator: its answer to the visibility query of each attempt
  (attempts are numbered from 0), the pixel count that it suggests with it, if any, and
  the time at which the scroll of that attempt is executed.
\<close>

record scroll_oracle =
  visibility :: "nat \<Rightarrow> VisibilityResult"
  suggested_pixels :: "nat \<Rightarrow> int option"
  clock :: "nat \<Rightarrow> nat"

text \<open>
  The specification leaves the direction-confidence threshold and the fixed default step
  distance open: they are parameters.
\<close>

record scroll_config =
  direction_threshold :: real
  default_distance :: int

fun opposite :: "ScrollDirection \<Rightarrow> ScrollDirection" where
  "opposite UP = DOWN"
| "opposite DOWN = UP"
| "opposite LEFT = RIGHT"
| "opposite RIGHT = LEFT"

text \<open>
  Modelled from the spec: step 3. The suggested direction is used when its confidence
  exceeds the threshold, otherwise the last committed direction, and downward when there
  is none yet.
\<close>

definition committed_direction :: "ScrollState \<Rightarrow> ScrollDirection" where
  "committed_direction st = (case last_direction st of Some d \<Rightarrow> d | None \<Rightarrow> DOWN)"

definition pick_direction :: "scroll_config \<Rightarrow> VisibilityResult \<Rightarrow> ScrollState \<Rightarrow> ScrollDirection" where
  "pick_direction cfg v st =
     (case suggested_direction v of
        Some d \<Rightarrow>
          if direction_threshold cfg < direction_confidence v then d else committed_direction st
      | None \<Rightarrow> committed_direction st)"

text \<open>
  Modelled from the spec: step 4. After a scroll, the target was partially visible at the
  previous attempt and is not visible now, or its visible percentage has decreased.
\<close>

definition overshoot :: "int option \<Rightarrow> VisibilityResult \<Rightarrow> ScrollState \<Rightarrow> bool" where
  "overshoot previous_percentage v st =
     (last_direction st \<noteq> None \<and>
      ((element_partially_visible st \<and> VisibilityResult.status v = NOT_VISIBLE) \<or>
       (case (previous_percentage, visible_percentage v) of
          (Some p, Some q) \<Rightarrow> q < p
        | _ \<Rightarrow> False)))"

text \<open>
  Modelled from the spec: steps 4 and 5. On an overshoot the direction is flipped and the
  action is marked as a correction; the action is appended to the history and the attempt
  counter incremented.
\<close>

definition next_action ::
  "scroll_config \<Rightarrow> scroll_oracle \<Rightarrow> int option \<Rightarrow> VisibilityResult \<Rightarrow> ScrollState \<Rightarrow> ScrollAction" where
  "next_action cfg orc previous_percentage v st =
     (let n = nat (ScrollState.attempts st);
          correcting = overshoot previous_percentage v st
      in \<lparr>direction = (if correcting then opposite (committed_direction st)
                        else pick_direction cfg v st),
           distance = (case suggested_pixels orc n of Some px \<Rightarrow> px
                       | None \<Rightarrow> default_distance cfg),
           is_correction = correcting,
           executed_at = Some (clock orc n)\<rparr>)"

definition scroll ::
  "scroll_config \<Rightarrow> scroll_oracle \<Rightarrow> int option \<Rightarrow> VisibilityResult \<Rightarrow> ScrollState \<Rightarrow> ScrollState" where
  "scroll cfg orc previous_percentage v st =
     (let a = next_action cfg orc previous_percentage v st
      in st\<lparr>ScrollState.attempts := ScrollState.attempts st + 1,
             ScrollState.scroll_history := ScrollState.scroll_history st @ [a],
             last_direction := Some (direction a),
             overshoot_detected := is_correction a,
             element_partially_visible := (VisibilityResult.status v = PARTIALLY_VISIBLE)\<rparr>)"

text \<open>Modelled from the spec: the result of a request, found or exhausted.\<close>

definition total_distance :: "ScrollAction list \<Rightarrow> int" where
  "total_distance h = sum_list (map distance h)"

definition found :: "VisibilityResult \<Rightarrow> ScrollState \<Rightarrow> ScrollResult" where
  "found v st =
     \<lparr>success = True, action_type = ''scroll_to_element'',
      coordinates = VisibilityResult.coordinates v,
      confidence = map_option GridCoordinate.confidence (VisibilityResult.coordinates v),
      attempts = Some (ScrollState.attempts st),
      total_scroll_distance = Some (total_distance (ScrollState.scroll_history st)),
      error = None,
      scroll_history = Some (ScrollState.scroll_history st)\<rparr>"

definition exhausted :: "ScrollState \<Rightarrow> ScrollResult" where
  "exhausted st =
     \<lparr>success = False, action_type = ''scroll_to_element'',
      coordinates = None, confidence = None,
      attempts = Some (ScrollState.attempts st),
      total_scroll_distance = Some (total_distance (ScrollState.scroll_history st)),
      error = Some ''ScrollExhausted'',
      scroll_history = Some (ScrollState.scroll_history st)\<rparr>"

text \<open>
  Modelled from the spec: the attempts, one after the other. The counter is compared with
  the maximum before each attempt, so the scroll that makes it reach the maximum is
  followed by \<open>Exhausted\<close> without another query (step 6), and a maximum that is not
  positive allows no attempt.
\<close>

function scroll_loop ::
  "scroll_config \<Rightarrow> scroll_oracle \<Rightarrow> int option \<Rightarrow> ScrollState \<Rightarrow> scroll_phase \<times> ScrollResult" where
  "scroll_loop cfg orc previous_percentage st =
     (if ScrollState.max_attempts st \<le> ScrollState.attempts st then (Exhausted, exhausted st)
      else
        let v = visibility orc (nat (ScrollState.attempts st)) in
        if VisibilityResult.status v = FULLY_VISIBLE then (Found, found v st)
        else scroll_loop cfg orc (visible_percentage v) (scroll cfg orc previous_percentage v st))"
  by pat_completeness auto
termination
  by (relation "measure (\<lambda>(cfg, orc, p, st). nat (ScrollState.max_attempts st - ScrollState.attempts st))")
     (auto simp: scroll_def Let_def)

declare scroll_loop.simps [simp del]

text \<open>
  Modelled from the spec: a scroll-to-element request creates its \<open>ScrollState\<close> (with the
  defaults of the data model) and runs the attempts.
\<close>

definition scroll_to_element ::
  "scroll_config \<Rightarrow> scroll_oracle \<Rightarrow> string \<Rightarrow> int option \<Rightarrow> ValidationError + scroll_phase \<times> ScrollResult" where
  "scroll_to_element cfg orc target_description kw_max_attempts =
     (case ScrollState_init (Some target_description) None kw_max_attempts None None None None None of
        Inl errors \<Rightarrow> Inl errors
      | Inr st \<Rightarrow> Inr (scroll_loop cfg orc None st))"


section \<open>Step scheduling and execution\<close>

subsection \<open>The step scheduler\<close>

text \<open>
  Modelled from the spec: the Step Scheduler (section 4.1), whose code is not among the
  sources; only the data models \<open>TestStep\<close>, \<open>TestPlan\<close> and \<open>TestState\<close> are. A step is
  runnable when all its dependencies are in \<open>completed_steps\<close> and it is not already
  completed, failed or skipped; among the runnable steps the one with the least step
  number is next, the first of them in plan order.
\<close>

definition resolved :: "TestState \<Rightarrow> UUID \<Rightarrow> bool" where
  "resolved st i \<longleftrightarrow>
     i \<in> set (completed_steps st) \<or> i \<in> set (failed_steps st) \<or> i \<in> set (skipped_steps st)"

definition dependencies_completed :: "TestState \<Rightarrow> TestStep \<Rightarrow> bool" where
  "dependencies_completed st t \<longleftrightarrow> list_all (\<lambda>d. d \<in> set (completed_steps st)) (dependencies t)"

definition runnable :: "TestState \<Rightarrow> TestStep \<Rightarrow> bool" where
  "runnable st t \<longleftrightarrow> dependencies_completed st t \<and> \<not> resolved st (step_id t)"

fun earliest :: "TestStep \<Rightarrow> TestStep list \<Rightarrow> TestStep" where
  "earliest t [] = t"
| "earliest t (u # us) = earliest (if step_number u < step_number t then u else t) us"

text \<open>
  Modelled from the spec: the scheduler fails with \<open>CyclicDependency\<close> when no step is
  runnable while unresolved steps remain, those that are neither completed, failed nor
  skipped (from such a state on no step is ever runnable, since only the execution of a
  step changes the state); it reports that there is no further step when every step is
  resolved. The failure of an optional step skips no step, and a step that depends on it
  is not runnable either, its dependency not being in \<open>completed_steps\<close>.
\<close>

definition unresolved :: "TestState \<Rightarrow> TestStep list" where
  "unresolved st = filter (\<lambda>t. \<not> resolved st (step_id t)) (steps (test_plan st))"

datatype SchedulerFailure = CyclicDependency

definition next_runnable :: "TestState \<Rightarrow> SchedulerFailure + TestStep option" where
  "next_runnable st =
     (case filter (runnable st) (steps (test_plan st)) of
        t # ts \<Rightarrow> Inr (Some (earliest t ts))
      | [] \<Rightarrow> if unresolved st = [] then Inr None else Inl CyclicDependency)"

text \<open>
  Modelled from the spec: the steps that depend on a failed step, directly or indirectly.
  Starting from the failed step, the steps that have a dependency among the identities
  found so far are added, until there is none left to add.
\<close>

definition depends_on :: "UUID list \<Rightarrow> TestStep \<Rightarrow> bool" where
  "depends_on ids t \<longleftrightarrow> list_ex (\<lambda>d. d \<in> set ids) (dependencies t)"

definition newly_blocked :: "TestStep list \<Rightarrow> UUID list \<Rightarrow> UUID list" where
  "newly_blocked ts ids =
     map step_id (filter (\<lambda>t. depends_on ids t \<and> step_id t \<notin> set ids) ts)"

lemma newly_blocked_fresh:
  assumes "newly_blocked ts ids \<noteq> []"
  shows "card (step_id ` set ts - set (ids @ newly_blocked ts ids))
           < card (step_id ` set ts - set ids)"
proof -
  from assms obtain x where x: "x \<in> set (newly_blocked ts ids)"
    by (cases "newly_blocked ts ids") auto
  then have "x \<in> step_id ` set ts - set ids"
    by (auto simp: newly_blocked_def)
  moreover from x have "x \<notin> step_id ` set ts - set (ids @ newly_blocked ts ids)"
    by simp
  ultimately have "step_id ` set ts - set (ids @ newly_blocked ts ids)
                     \<subset> step_id ` set ts - set ids"
    by auto
  then show ?thesis
    by (intro psubset_card_mono) simp_all
qed

function dependents :: "TestStep list \<Rightarrow> UUID list \<Rightarrow> UUID list" where
  "dependents ts ids =
     (if newly_blocked ts ids = [] then ids
      else dependents ts (ids @ newly_blocked ts ids))"
  by pat_completeness auto
termination
  by (relation "measure (\<lambda>(ts, ids). card (step_id ` set ts - set ids))")
     (simp_all add: newly_blocked_fresh [simplified])

declare dependents.simps [simp del]

definition transitive_dependents :: "TestPlan \<Rightarrow> UUID \<Rightarrow> UUID list" where
  "transitive_dependents plan i = filter (\<lambda>j. j \<noteq> i) (dependents (steps plan) [i])"

subsection \<open>The execution coordinator\<close>

text \<open>
  Modelled from the spec: the Execution Coordinator (section 4.4), whose code is not among
  the sources. The collaborators decide the verdict of each attempt of a step (numbered by
  the retries used so far) and the values that a successful step extracts.
\<close>

record execution =
  succeeds :: "UUID \<Rightarrow> nat \<Rightarrow> bool"
  extracted :: "UUID \<Rightarrow> (string \<times> string) list"

text \<open>
  Modelled from the spec: steps 1 to 4 and 6. An attempt that fails is repeated while
  \<open>retries_used < max_retries\<close>. The result is the verdict and the retries used.
\<close>

function attempt_step :: "execution \<Rightarrow> TestStep \<Rightarrow> nat \<Rightarrow> bool \<times> nat" where
  "attempt_step ex t retries_used =
     (if succeeds ex (step_id t) retries_used then (True, retries_used)
      else if int retries_used < max_retries t then attempt_step ex t (retries_used + 1)
      else (False, retries_used))"
  by pat_completeness auto
termination
  by (relation "measure (\<lambda>(ex, t, retries_used). nat (max_retries t - int retries_used))") auto

declare attempt_step.simps [simp del]

text \<open>
  Modelled from the spec: steps 5 and 6. A successful step is added to \<open>completed_steps\<close>
  and its values are merged into the context; a step whose retries are exhausted is added
  to \<open>failed_steps\<close> and, unless it is optional, every step depending on it that is not
  skipped yet is added to \<open>skipped_steps\<close> without being executed.
\<close>

definition execute_step :: "execution \<Rightarrow> TestStep \<Rightarrow> TestState \<Rightarrow> TestState" where
  "execute_step ex t st =
     (if fst (attempt_step ex t 0) then
        st\<lparr>current_step := Some t,
           completed_steps := completed_steps st @ [step_id t],
           context' := context' st @ extracted ex (step_id t)\<rparr>
      else if optional t then
        st\<lparr>current_step := Some t,
           failed_steps := failed_steps st @ [step_id t]\<rparr>
      else
        st\<lparr>current_step := Some t,
           failed_steps := failed_steps st @ [step_id t],
           skipped_steps := skipped_steps st @
             filter (\<lambda>j. j \<notin> set (skipped_steps st))
               (transitive_dependents (test_plan st) (step_id t))\<rparr>)"

lemma earliest_member: "earliest t ts \<in> set (t # ts)"
  by (induction ts arbitrary: t) auto

lemma next_runnable_Some:
  assumes "next_runnable st = Inr (Some t)"
  shows "t \<in> set (steps (test_plan st)) \<and> runnable st t"
proof -
  from assms obtain u us where f: "filter (runnable st) (steps (test_plan st)) = u # us"
      and t: "t = earliest u us"
    by (auto simp: next_runnable_def split: list.splits if_splits)
  from earliest_member [of u us] t f have "t \<in> set (filter (runnable st) (steps (test_plan st)))"
    by simp
  then show ?thesis by simp
qed

lemma execute_step_plan [simp]: "test_plan (execute_step ex t st) = test_plan st"
  by (simp add: execute_step_def)

lemma execute_step_resolved:
  "resolved st i \<Longrightarrow> resolved (execute_step ex t st) i"
  by (auto simp: resolved_def execute_step_def)

lemma execute_step_resolves: "resolved (execute_step ex t st) (step_id t)"
  by (simp add: resolved_def execute_step_def)

lemma execute_step_unresolved:
  assumes "t \<in> set (steps (test_plan st))" and "\<not> resolved st (step_id t)"
  shows "length (unresolved (execute_step ex t st)) < length (unresolved st)"
proof -
  let ?st' = "execute_step ex t st"
  have "unresolved ?st' = filter (\<lambda>u. \<not> resolved ?st' (step_id u)) (unresolved st)"
    using execute_step_resolved [of st _ ex t]
    by (auto simp: unresolved_def intro: filter_cong)
  moreover from assms have "t \<in> set (unresolved st)"
    by (simp add: unresolved_def)
  moreover have "\<not> \<not> resolved ?st' (step_id t)"
    by (simp add: execute_step_resolves)
  ultimately show ?thesis
    by (metis length_filter_less)
qed

text \<open>
  Modelled from the spec: step 7. The run executes the next runnable step until the
  scheduler reports none or fails; the result is the list of the states of the run, from
  the initial state to the final one, and the failure of the scheduler, if any.
\<close>

function run :: "execution \<Rightarrow> TestState \<Rightarrow> TestState list \<times> SchedulerFailure option" where
  "run ex st =
     (case next_runnable st of
        Inl failure \<Rightarrow> ([st], Some failure)
      | Inr None \<Rightarrow> ([st], None)
      | Inr (Some t) \<Rightarrow>
          (case run ex (execute_step ex t st) of (sts, failure) \<Rightarrow> (st # sts, failure)))"
  by pat_completeness auto
termination
proof (relation "measure (\<lambda>(ex, st). length (unresolved st))")
  show "wf (measure (\<lambda>(ex, st). length (unresolved st)))"
    by simp
next
  fix ex :: execution and st :: TestState and next_step :: "TestStep option" and t :: TestStep
  assume "next_runnable st = Inr next_step" and "next_step = Some t"
  then have "next_runnable st = Inr (Some t)"
    by simp
  from next_runnable_Some [OF this]
  have "t \<in> set (steps (test_plan st))" and "\<not> resolved st (step_id t)"
    by (simp_all add: runnable_def)
  then show "((ex, execute_step ex t st), (ex, st)) \<in> measure (\<lambda>(ex, st). length (unresolved st))"
    by (simp add: execute_step_unresolved)
qed

declare run.simps [simp del]


subsection \<open>Outcome categories\<close>

text \<open>
  The three collections of the test state hold no identity in common.
\<close>

definition mutually_exclusive :: "TestState \<Rightarrow> bool" where
  "mutually_exclusive st \<longleftrightarrow>
     set (completed_steps st) \<inter> set (failed_steps st) = {} \<and>
     set (completed_steps st) \<inter> set (skipped_steps st) = {} \<and>
     set (failed_steps st) \<inter> set (skipped_steps st) = {}"

text \<open>
  The categories of a step are the collections of the test state in which its identity
  appears. The test state has no collection of blocked steps: by section 4.1 of the
  specification a step that is blocked by the failure of a step it depends on is marked
  skipped, and so recorded in \<open>skipped_steps\<close>.
\<close>

definition categories :: "TestState \<Rightarrow> TestStep \<Rightarrow> TestStatus list" where
  "categories st t =
     (if step_id t \<in> set (completed_steps st) then [COMPLETED] else []) @
     (if step_id t \<in> set (failed_steps st) then [FAILED] else []) @
     (if step_id t \<in> set (skipped_steps st) then [SKIPPED] else [])"

text \<open>
  Every step that was executed (it is completed or failed) had all its dependencies
  completed.
\<close>

definition ran_after_dependencies :: "TestState \<Rightarrow> bool" where
  "ran_after_dependencies st \<longleftrightarrow>
     (\<forall>t \<in> set (steps (test_plan st)).
        step_id t \<in> set (completed_steps st) \<union> set (failed_steps st) \<longrightarrow>
        set (dependencies t) \<subseteq> set (completed_steps st))"

definition invariant :: "TestState \<Rightarrow> bool" where
  "invariant st \<longleftrightarrow> mutually_exclusive st \<and> ran_after_dependencies st"

section \<open>Example inputs\<close>

text \<open>
  An oracle that is not sure: one candidate with confidence 0.5, and a refinement that
  moves the offset and lowers the confidence to 0.4. The refined answer replaces the
  candidate.
\<close>

definition low_confidence_oracle :: visual_oracle where
  "low_confidence_oracle =
     \<lparr>candidates = (\<lambda>d s. [\<lparr>cell = ''M23'', offset_x = 0.5, offset_y = 0.5, confidence = 0.5,
                              refined = False\<rparr>]),
      refinement = (\<lambda>c s. c\<lparr>offset_x := 0.25, GridCoordinate.confidence := 0.4\<rparr>)\<rparr>"

definition take_refined :: "GridCoordinate \<Rightarrow> GridCoordinate \<Rightarrow> GridCoordinate" where
  "take_refined c r = r"

definition example_plan :: TestPlan where
  "example_plan =
     \<lparr>plan_id = 1, name = ''Login'', description = ''Login flow'',
      requirements = ''The user can log in'', steps = [], created_at = 0,
      estimated_duration_seconds = None, tags = []\<rparr>"

definition example_state :: "TestStatus \<Rightarrow> TestState" where
  "example_state s =
     \<lparr>test_plan = example_plan, current_step = None, completed_steps = [],
      failed_steps = [], skipped_steps = [], status = s, start_time = None,
      end_time = None, error_count = 0, warning_count = 0, context' = []\<rparr>"

text \<open>Every call returns, and the execution ends with the given status.\<close>

definition all_return :: "TestStatus \<Rightarrow> env" where
  "all_return s = \<lparr>raises = (\<lambda>c. None), test_state = example_state s\<rparr>"

text \<open>Every call returns but one, which raises the given exception.\<close>

definition one_raises :: "call_name \<Rightarrow> exn \<Rightarrow> TestStatus \<Rightarrow> env" where
  "one_raises c x s =
     \<lparr>raises = (\<lambda>c'. if c' = c then Some x else None), test_state = example_state s\<rparr>"

text \<open>Every call returns but two.\<close>

definition two_raise :: "call_name \<Rightarrow> exn \<Rightarrow> call_name \<Rightarrow> exn \<Rightarrow> TestStatus \<Rightarrow> env" where
  "two_raise c x c' x' s =
     \<lparr>raises = (\<lambda>d. if d = c then Some x else if d = c' then Some x' else None),
      test_state = example_state s\<rparr>"

definition example_scenario :: json where
  "example_scenario =
     JObject [(''name'', JString ''Login''),
              (''requirements'', JString ''The user can log in''),
              (''url'', JString ''https://example.com/login'')]"

text \<open>A scroll configuration, and a page on which the target never becomes visible.\<close>

definition example_config :: scroll_config where
  "example_config = \<lparr>direction_threshold = 0.7, default_distance = 300\<rparr>"

definition never_visible :: scroll_oracle where
  "never_visible =
     \<lparr>visibility = (\<lambda>n. \<lparr>status = NOT_VISIBLE, coordinates = None, visible_percentage = None,
                          suggested_direction = None, direction_confidence = 0, notes' = []\<rparr>),
      suggested_pixels = (\<lambda>n. None),
      clock = (\<lambda>n. n)\<rparr>"

text \<open>
  Scenario A of the specification: steps 1 and 2 without dependencies, step 3 depending
  on both, all required with three retries; every attempt of step 1 fails.
\<close>

definition example_step :: "UUID \<Rightarrow> UUID list \<Rightarrow> TestStep" where
  "example_step i deps =
     \<lparr>step_id = i, step_number = int i, description = ''step'',
      action_instruction =
        \<lparr>ActionInstruction.action_type = CLICK, description = ''click'', target = Some ''button'',
         value' = None, expected_outcome = ''page changes'', timeout = 5000\<rparr>,
      dependencies = deps, optional = False, max_retries = 3\<rparr>"

definition scenario_A :: TestPlan where
  "scenario_A = example_plan\<lparr>steps := [example_step 1 [], example_step 2 [], example_step 3 [1, 2]]\<rparr>"

definition step_1_fails :: execution where
  "step_1_fails = \<lparr>succeeds = (\<lambda>i k. i \<noteq> 1), extracted = (\<lambda>i. [])\<rparr>"

text \<open>
  A plan in which two steps have the same identity: the first step and the third one,
  which depends on the second; every attempt of the second step fails.
\<close>

definition duplicate_identities :: TestPlan where
  "duplicate_identities =
     example_plan\<lparr>steps := [(example_step 2 [])\<lparr>step_number := 1\<rparr>,
                             (example_step 1 [])\<lparr>step_number := 2\<rparr>,
                             (example_step 2 [1])\<lparr>step_number := 3\<rparr>]\<rparr>"

section \<open>Properties of the data models\<close>

lemma ge_le_empty: "ge_le nm v = [] \<longleftrightarrow> 0 \<le> v \<and> v \<le> 1"
  by (simp add: ge_le_def)

lemma optional_ge_le_empty:
  "optional_ge_le nm v = [] \<longleftrightarrow> (case v of None \<Rightarrow> True | Some x \<Rightarrow> 0 \<le> x \<and> x \<le> 1)"
  by (simp add: optional_ge_le_def ge_le_empty split: option.split)

lemma default_unit:
  assumes "case v of None \<Rightarrow> True | Some x \<Rightarrow> 0 \<le> x \<and> x \<le> 1"
  shows "0 \<le> field_default 0.5 v \<and> field_default 0.5 v \<le> (1::real)"
  using assms by (simp add: field_default_def split: option.splits)

lemma GridCoordinate_init_Inr:
  assumes "GridCoordinate_init c ox oy cf r = Inr g"
  shows "\<exists>c' cf'. c = Some c' \<and> cf = Some cf'
           \<and> optional_ge_le ''offset_x'' ox = []
           \<and> optional_ge_le ''offset_y'' oy = []
           \<and> ge_le ''confidence'' cf' = []
           \<and> g = \<lparr>cell = c', offset_x = field_default 0.5 ox, offset_y = field_default 0.5 oy,
                   confidence = cf', refined = field_default False r\<rparr>"
  using assms
  by (auto simp: GridCoordinate_init_def Let_def required_def required_ge_le_def
           split: option.splits if_splits)

lemma outside_unit_errors:
  "outside_unit v \<Longrightarrow> optional_ge_le nm v \<noteq> []"
  by (auto simp: outside_unit_def optional_ge_le_def ge_le_def split: option.splits)

lemma outside_unit_required_errors:
  "outside_unit v \<Longrightarrow> required_ge_le nm v \<noteq> []"
  by (auto simp: outside_unit_def required_ge_le_def ge_le_def split: option.splits)

text \<open>
  C2, as amended. Every GridCoordinate that the constructor builds has offset_x, offset_y
  and confidence within [0, 1], and the constructor rejects (returns the validation error
  instead of an object) whenever one of the three is given outside [0, 1]. The bounds are
  those of the constructed value: they are not claimed of an object after an assignment to
  one of its fields.
\<close>

theorem GridCoordinate_bounds:
  "(GridCoordinate_init c ox oy cf r = Inr g \<longrightarrow>
      0 \<le> offset_x g \<and> offset_x g \<le> 1 \<and>
      0 \<le> offset_y g \<and> offset_y g \<le> 1 \<and>
      0 \<le> GridCoordinate.confidence g \<and> GridCoordinate.confidence g \<le> 1)
   \<and> (outside_unit ox \<or> outside_unit oy \<or> outside_unit cf \<longrightarrow>
        isl (GridCoordinate_init c ox oy cf r))"
proof (rule conjI; rule impI)
  assume built: "GridCoordinate_init c ox oy cf r = Inr g"
  from GridCoordinate_init_Inr [OF built] obtain c' cf' where
    ox: "optional_ge_le ''offset_x'' ox = []" and
    oy: "optional_ge_le ''offset_y'' oy = []" and
    cf: "ge_le ''confidence'' cf' = []" and
    g: "g = \<lparr>cell = c', offset_x = field_default 0.5 ox, offset_y = field_default 0.5 oy,
             confidence = cf', refined = field_default False r\<rparr>"
    by blast
  from ox have "0 \<le> field_default 0.5 ox \<and> field_default 0.5 ox \<le> (1::real)"
    by (intro default_unit) (simp add: optional_ge_le_empty)
  moreover from oy have "0 \<le> field_default 0.5 oy \<and> field_default 0.5 oy \<le> (1::real)"
    by (intro default_unit) (simp add: optional_ge_le_empty)
  moreover from cf have "0 \<le> cf' \<and> cf' \<le> 1"
    by (simp add: ge_le_empty)
  ultimately show
    "0 \<le> offset_x g \<and> offset_x g \<le> 1 \<and> 0 \<le> offset_y g \<and> offset_y g \<le> 1 \<and>
     0 \<le> GridCoordinate.confidence g \<and> GridCoordinate.confidence g \<le> 1"
    by (simp add: g)
next
  assume out: "outside_unit ox \<or> outside_unit oy \<or> outside_unit cf"
  define errors where "errors = required ''cell'' c @ optional_ge_le ''offset_x'' ox
             @ optional_ge_le ''offset_y'' oy @ required_ge_le ''confidence'' cf"
  from out have "errors \<noteq> []"
    unfolding errors_def using outside_unit_errors outside_unit_required_errors by auto
  moreover have "GridCoordinate_init c ox oy cf r =
      (case (c, cf) of
         (Some c', Some cf') \<Rightarrow>
           if errors = [] then
             Inr \<lparr>cell = c', offset_x = field_default 0.5 ox, offset_y = field_default 0.5 oy,
                  confidence = cf', refined = field_default False r\<rparr>
           else Inl errors
       | _ \<Rightarrow> Inl errors)"
    unfolding errors_def GridCoordinate_init_def Let_def ..
  ultimately show "isl (GridCoordinate_init c ox oy cf r)"
    by (simp split: option.splits)
qed

theorem GridCoordinate_bounds_witness:
  "GridCoordinate_init (Some ''M23'') (Some 0.25) None (Some 0.9) None
     = Inr \<lparr>cell = ''M23'', offset_x = 0.25, offset_y = 0.5, confidence = 0.9, refined = False\<rparr>
   \<and> 0 \<le> offset_x \<lparr>cell = ''M23'', offset_x = 0.25, offset_y = 0.5, confidence = 0.9,
                      refined = False\<rparr>
   \<and> outside_unit (Some 1.5)
   \<and> isl (GridCoordinate_init (Some ''M23'') (Some 1.5) None (Some 0.9) None)"
proof -
  have built: "GridCoordinate_init (Some ''M23'') (Some 0.25) None (Some 0.9) None
     = Inr \<lparr>cell = ''M23'', offset_x = 0.25, offset_y = 0.5, confidence = 0.9, refined = False\<rparr>"
    by (simp add: GridCoordinate_init_def required_def optional_ge_le_def required_ge_le_def
          ge_le_def field_default_def)
  have out: "outside_unit (Some 1.5)"
    by (simp add: outside_unit_def)
  from GridCoordinate_bounds [where c = "Some ''M23''" and ox = "Some 0.25" and oy = None
      and cf = "Some 0.9" and r = None
      and g = "\<lparr>cell = ''M23'', offset_x = 0.25, offset_y = 0.5, confidence = 0.9,
                refined = False\<rparr>"]
    GridCoordinate_bounds [where c = "Some ''M23''" and ox = "Some 1.5" and oy = None
      and cf = "Some 0.9" and r = None]
  show ?thesis using built out by simp
qed

text \<open>
  C2, counterexample. The claim as stated has every operation on a GridCoordinate preserve
  the bounds. The constructor builds a coordinate of confidence 0.9; the assignment
  \<^verbatim>\<open>g.confidence = 7.0\<close> to it is accepted and leaves a GridCoordinate whose confidence is 7.
\<close>

theorem GridCoordinate_assignment_unchecked:
  "GridCoordinate_init (Some ''M23'') None None (Some 0.9) None
     = Inr \<lparr>cell = ''M23'', offset_x = 0.5, offset_y = 0.5, confidence = 0.9, refined = False\<rparr>
   \<and> GridCoordinate_set_confidence
         \<lparr>cell = ''M23'', offset_x = 0.5, offset_y = 0.5, confidence = 0.9, refined = False\<rparr> 7
       = \<lparr>cell = ''M23'', offset_x = 0.5, offset_y = 0.5, confidence = 7, refined = False\<rparr>
   \<and> 1 < GridCoordinate.confidence
             (GridCoordinate_set_confidence
                \<lparr>cell = ''M23'', offset_x = 0.5, offset_y = 0.5, confidence = 0.9,
                 refined = False\<rparr> 7)"
  by (simp add: GridCoordinate_init_def required_def optional_ge_le_def required_ge_le_def
        ge_le_def field_default_def GridCoordinate_set_confidence_def)

text \<open>
  C9. A GridCoordinate constructed from a cell and a valid confidence only, with no
  offsets and no refined flag, has offset_x = 0.5, offset_y = 0.5 and refined = False:
  it points at the centre of its cell.
\<close>

theorem GridCoordinate_defaults:
  assumes "0 \<le> cf" and "cf \<le> 1"
  shows "GridCoordinate_init (Some c) None None (Some cf) None
           = Inr \<lparr>cell = c, offset_x = 0.5, offset_y = 0.5, confidence = cf, refined = False\<rparr>"
  using assms
  by (simp add: GridCoordinate_init_def required_def optional_ge_le_def required_ge_le_def
        ge_le_def field_default_def)

theorem GridCoordinate_defaults_witness:
  "(0::real) \<le> 0.9 \<and> (0.9::real) \<le> 1 \<and>
   GridCoordinate_init (Some ''M23'') None None (Some 0.9) None
     = Inr \<lparr>cell = ''M23'', offset_x = 0.5, offset_y = 0.5, confidence = 0.9, refined = False\<rparr>"
proof -
  have lo: "(0::real) \<le> 0.9" and hi: "(0.9::real) \<le> 1" by simp_all
  from GridCoordinate_defaults [OF lo hi, of "''M23''"] lo hi show ?thesis by simp
qed

text \<open>
  C7. A ScrollState created without an explicit maximum has max_attempts = 15, and so
  has a ScrollParameters created without one.
\<close>

theorem max_attempts_default:
  "map_sum id ScrollState.max_attempts
       (ScrollState_init (Some t) a None h d ov pv hs) = Inr 15
   \<and> ScrollParameters.max_attempts (ScrollParameters_init dir px tgt None) = 15"
  by (simp add: ScrollState_init_def ScrollParameters_init_def field_default_def)

section \<open>Properties of the entry point\<close>

subsection \<open>load_scenario\<close>

lemma missing_fields_JObject:
  "missing_fields (JObject kvs) fs = Inr (filter (\<lambda>f. f \<notin> set (map fst kvs)) fs)"
  by (induction fs) simp_all

text \<open>
  C8, as amended. load_scenario requires the three keys name, requirements and url, and
  not a list of steps: a JSON object is returned as it is exactly when it has all three.
  A record in which one of the three is missing and a file that is not valid JSON are
  rejected: the handler prints an error line and exits with status 1 (and when the print
  itself raises, its exception leaves the function).
\<close>

theorem load_scenario_required_fields:
  "load_scenario raised (Inr (JObject kvs)) =
     (if ''name'' \<in> fst ` set kvs \<and> ''requirements'' \<in> fst ` set kvs \<and> ''url'' \<in> fst ` set kvs
      then ([], Inr (JObject kvs))
      else ([Error_loading_scenario],
            Inl (case raised (console_print Error_loading_scenario) of
                   None \<Rightarrow> SystemExit 1
                 | Some x \<Rightarrow> x)))
   \<and> load_scenario raised (Inl JSONDecodeError) =
       ([Invalid_JSON_in_scenario_file],
        Inl (case raised (console_print Invalid_JSON_in_scenario_file) of
               None \<Rightarrow> SystemExit 1
             | Some x \<Rightarrow> x))"
  by (simp add: load_scenario_def load_scenario_try_def missing_fields_JObject required_fields_def
        print_and_exit_def)

theorem load_scenario_required_fields_witness:
  "load_scenario (\<lambda>c. None) (Inr (JObject [(''name'', JString ''Login''), (''url'', JString ''u'')]))
     = ([Error_loading_scenario], Inl (SystemExit 1))"
  using load_scenario_required_fields
    [of "\<lambda>c. None" "[(''name'', JString ''Login''), (''url'', JString ''u'')]"]
  by simp

text \<open>
  C8 as stated fails: a record with a name, requirements and a URL but no list of steps is
  accepted.
\<close>

theorem load_scenario_without_steps:
  "load_scenario (\<lambda>c. None) (Inr example_scenario) = ([], Inr example_scenario)
   \<and> contains example_scenario ''steps'' = Inr False"
  by (simp add: load_scenario_def load_scenario_try_def required_fields_def example_scenario_def)

subsection \<open>run_test\<close>

lemma run_calls_first_raise: "fst (run_calls e cs f) = first_raise e cs"
  by (induction cs arbitrary: f) (simp_all split: option.splits)

lemma first_raise_None:
  assumes "\<forall>c \<in> set cs. raises e c = None"
  shows "first_raise e cs = None"
  using assms by (induction cs) simp_all

lemma TestStatus_value_completed: "TestStatus_value s = ''completed'' \<longleftrightarrow> s = COMPLETED"
  by (cases s) simp_all

lemma run_test_try_result:
  "fst (run_test_try e p b f) =
     (case first_raise e (body_calls p b) of
        Some x \<Rightarrow> Inl x
      | None \<Rightarrow> Inr (if p \<or> TestState.status (test_state e) = COMPLETED then 0 else 1))"
proof -
  obtain u f' where run: "run_calls e (body_calls p b) f = (u, f')"
    by (cases "run_calls e (body_calls p b) f")
  with run_calls_first_raise [of e "body_calls p b" f] have "first_raise e (body_calls p b) = u"
    by simp
  with run show ?thesis
    by (cases u; cases p) (simp_all add: run_test_try_def TestStatus_value_completed)
qed

lemma run_test_returns:
  assumes "fst (run_test e p b) = Inr code"
  shows "\<exists>f f'. fst (run_test_except e (fst (run_test_try e p b f)) f') = Inr code"
  using assms
  by (auto simp: run_test_def split: prod.splits option.splits) (metis fst_conv)

lemma run_test_except_returns:
  assumes "fst (run_test_except e r f) = Inr code"
  shows "r = Inr code
       \<or> (\<exists>x. r = Inl x \<and>
               code = (if x = TimeoutError then 2 else if x = KeyboardInterrupt then 130 else 1))"
  using assms
  by (auto simp: run_test_except_def handler_def split: sum.splits if_splits prod.splits
        option.splits)

lemma handler_returns:
  assumes "\<forall>c \<in> set cs. raises e c = None"
  shows "fst (handler e cs code f) = Inr code"
  using first_raise_None [OF assms] run_calls_first_raise [of e cs f]
  by (auto simp: handler_def split: prod.splits option.splits)

lemma run_test_finally_returns:
  assumes "raises e coordinator_cleanup = None" and "raises e browser_controller_stop = None"
  shows "fst (run_test_finally e f) = None"
proof -
  from assms have "\<forall>c \<in> set (finally_calls f). raises e c = None"
    by (auto simp: finally_calls_def)
  from first_raise_None [OF this] show ?thesis
    by (simp add: run_test_finally_def run_calls_first_raise)
qed

lemmas run_test_defs = run_test_def run_test_try_def run_test_except_def handler_def
  run_test_finally_def finally_calls_def body_calls_def setup_calls_def plan_only_calls_def
  report_calls_def assigned_def

text \<open>
  C4 fails where the clean-up raises after the timeout: the set-up has succeeded and the
  browser is started, \<^verbatim>\<open>asyncio.wait_for\<close> raises \<open>TimeoutError\<close>, the handler prints the
  timeout error, \<^verbatim>\<open>coordinator.cleanup()\<close> raises in the \<^verbatim>\<open>finally\<close> block; the exception
  leaves run_test, so no exit code 2 is returned, and \<^verbatim>\<open>browser_controller.stop()\<close> is
  never called.
\<close>

theorem run_test_timeout_cleanup_raises:
  "run_test
     (two_raise wait_for_execute_test_from_requirements TimeoutError
        coordinator_cleanup Exception IN_PROGRESS) False False =
     (Inl Exception,
      \<lparr>browser_controller = True, coordinator = True,
       calls = setup_calls False @
               [console_print Executing_test, wait_for_execute_test_from_requirements,
                console_print Test_execution_timed_out, coordinator_cleanup]\<rparr>)
   \<and> browser_controller_start \<in> set (setup_calls False)
   \<and> browser_controller_stop
        \<notin> set (setup_calls False @
               [console_print Executing_test, wait_for_execute_test_from_requirements,
                console_print Test_execution_timed_out, coordinator_cleanup])"
  by (simp add: run_test_defs two_raise_def)

text \<open>
  C5 fails where the coordinator's clean-up raises: every call of the run has returned and
  the browser has been started, \<^verbatim>\<open>coordinator.cleanup()\<close> raises in the \<^verbatim>\<open>finally\<close> block, the
  exception leaves run_test and \<^verbatim>\<open>browser_controller.stop()\<close> is never called.
\<close>

theorem run_test_cleanup_raises:
  "run_test (one_raises coordinator_cleanup Exception COMPLETED) False False =
     (Inl Exception,
      \<lparr>browser_controller = True, coordinator = True,
       calls = body_calls False False @ [coordinator_cleanup]\<rparr>)
   \<and> browser_controller_start \<in> set (body_calls False False @ [coordinator_cleanup])
   \<and> browser_controller_stop \<notin> set (body_calls False False @ [coordinator_cleanup])"
  by (simp add: run_test_defs one_raises_def example_state_def)

text \<open>
  C10, as amended. Whenever run_test returns an exit code, the code is decided by the
  first call of the \<^verbatim>\<open>try\<close> block that raises: it is 0 if and only if no call raises and
  either the run is plan-only (nothing is executed) or the final status is completed; 1
  when no call raises and the final status is another one, or when the exception is an
  unexpected one; 2 when it is \<open>TimeoutError\<close>; 130 when it is \<open>KeyboardInterrupt\<close>. And
  run_test does return an exit code when the exception, if any, is \<open>TimeoutError\<close>,
  \<open>KeyboardInterrupt\<close> or an instance of \<^verbatim>\<open>Exception\<close> and the calls of the handlers and of
  the clean-up return. Nothing is said of the other runs.
\<close>

theorem run_test_exit_code:
  "(\<forall>code. fst (run_test e plan_only berserk) = Inr code \<longrightarrow>
      code = (case first_raise e (body_calls plan_only berserk) of
                None \<Rightarrow> if plan_only \<or> TestState.status (test_state e) = COMPLETED then 0 else 1
              | Some x \<Rightarrow>
                  if x = TimeoutError then 2 else if x = KeyboardInterrupt then 130 else 1)
      \<and> (code = 0 \<longleftrightarrow>
           first_raise e (body_calls plan_only berserk) = None
           \<and> (plan_only \<or> TestState.status (test_state e) = COMPLETED)))
   \<and> ((\<forall>c \<in> set handler_and_cleanup_calls. raises e c = None)
        \<and> (\<forall>x. first_raise e (body_calls plan_only berserk) = Some x \<longrightarrow>
               x = TimeoutError \<or> x = KeyboardInterrupt \<or> isinstance_Exception x)
       \<longrightarrow> (\<exists>code. fst (run_test e plan_only berserk) = Inr code))"
proof (intro conjI allI impI)
  fix code
  assume ret: "fst (run_test e plan_only berserk) = Inr code"
  from run_test_returns [OF ret] obtain f f' where
    "fst (run_test_except e (fst (run_test_try e plan_only berserk f)) f') = Inr code"
    by blast
  from run_test_except_returns [OF this]
  have "fst (run_test_try e plan_only berserk f) = Inr code
       \<or> (\<exists>x. fst (run_test_try e plan_only berserk f) = Inl x \<and>
               code = (if x = TimeoutError then 2 else if x = KeyboardInterrupt then 130 else 1))" .
  then show eq: "code = (case first_raise e (body_calls plan_only berserk) of
                None \<Rightarrow> if plan_only \<or> TestState.status (test_state e) = COMPLETED then 0 else 1
              | Some x \<Rightarrow>
                  if x = TimeoutError then 2 else if x = KeyboardInterrupt then 130 else 1)"
    unfolding run_test_try_result
    by (cases "first_raise e (body_calls plan_only berserk)") auto
  show "code = 0 \<longleftrightarrow>
           first_raise e (body_calls plan_only berserk) = None
           \<and> (plan_only \<or> TestState.status (test_state e) = COMPLETED)"
    unfolding eq by (simp split: option.splits)
next
  assume ok: "(\<forall>c \<in> set handler_and_cleanup_calls. raises e c = None)
        \<and> (\<forall>x. first_raise e (body_calls plan_only berserk) = Some x \<longrightarrow>
               x = TimeoutError \<or> x = KeyboardInterrupt \<or> isinstance_Exception x)"
  define f0 where "f0 = \<lparr>browser_controller = False, coordinator = False, calls = []\<rparr>"
  obtain r f where tr: "run_test_try e plan_only berserk f0 = (r, f)"
    by (cases "run_test_try e plan_only berserk f0")
  obtain r' f' where exc: "run_test_except e r f = (r', f')"
    by (cases "run_test_except e r f")
  obtain u f'' where fin: "run_test_finally e f' = (u, f'')"
    by (cases "run_test_finally e f'")
  from ok have cleanup: "raises e coordinator_cleanup = None" "raises e browser_controller_stop = None"
    by (simp_all add: handler_and_cleanup_calls_def)
  from run_test_finally_returns [OF cleanup, of f'] fin have u: "u = None"
    by simp
  from tr exc fin u have res: "fst (run_test e plan_only berserk) = r'"
    by (simp add: run_test_def f0_def)
  from tr have r: "r = fst (run_test_try e plan_only berserk f0)"
    by simp
  have "\<exists>code. r' = Inr code"
  proof (cases r)
    case (Inr c)
    with exc show ?thesis by (auto simp: run_test_except_def)
  next
    case (Inl x)
    with r have "first_raise e (body_calls plan_only berserk) = Some x"
      by (simp add: run_test_try_result split: option.splits)
    with ok have x: "x = TimeoutError \<or> x = KeyboardInterrupt \<or> isinstance_Exception x"
      by blast
    from ok have h: "\<forall>c \<in> set [console_print Test_execution_timed_out]. raises e c = None"
        "\<forall>c \<in> set [console_print Test_execution_interrupted_by_user]. raises e c = None"
        "\<forall>c \<in> set [console_print Error_during_test_execution, logger_exception]. raises e c = None"
      by (simp_all add: handler_and_cleanup_calls_def)
    from exc Inl x handler_returns [OF h(1), of _ f] handler_returns [OF h(2), of _ f]
      handler_returns [OF h(3), of _ f]
    show ?thesis
      by (auto simp: run_test_except_def split: if_splits) (metis fst_conv)+
  qed
  with res show "\<exists>code. fst (run_test e plan_only berserk) = Inr code"
    by simp
qed


theorem run_test_exit_code_witness:
  "first_raise (one_raises reporter_generate_report KeyboardInterrupt COMPLETED)
       (body_calls False False) = Some KeyboardInterrupt
   \<and> fst (run_test (one_raises reporter_generate_report KeyboardInterrupt COMPLETED) False False)
       = Inr 130
   \<and> first_raise (all_return FAILED) (body_calls False True) = None
   \<and> fst (run_test (all_return FAILED) False True) = Inr 1"
proof -
  let ?e = "one_raises reporter_generate_report KeyboardInterrupt COMPLETED"
  have first: "first_raise ?e (body_calls False False) = Some KeyboardInterrupt"
    by (simp add: one_raises_def body_calls_def setup_calls_def report_calls_def)
  have quiet: "\<forall>c \<in> set handler_and_cleanup_calls. raises ?e c = None"
    by (simp add: one_raises_def handler_and_cleanup_calls_def)
  from run_test_exit_code [of ?e False False] first quiet
  obtain code where ret: "fst (run_test ?e False False) = Inr code"
    by auto
  with run_test_exit_code [of ?e False False] first have "code = 130"
    by auto
  with ret have interrupted: "fst (run_test ?e False False) = Inr 130"
    by simp
  let ?a = "all_return FAILED"
  have none: "first_raise ?a (body_calls False True) = None"
    by (simp add: all_return_def body_calls_def setup_calls_def report_calls_def)
  have quiet': "\<forall>c \<in> set handler_and_cleanup_calls. raises ?a c = None"
    by (simp add: all_return_def handler_and_cleanup_calls_def)
  have status: "TestState.status (test_state ?a) = FAILED"
    by (simp add: all_return_def example_state_def)
  from run_test_exit_code [of ?a False True] none quiet'
  obtain code' where ret': "fst (run_test ?a False True) = Inr code'"
    by auto
  with run_test_exit_code [of ?a False True] none status have "code' = 1"
    by auto
  with ret' have "fst (run_test ?a False True) = Inr 1"
    by simp
  with first interrupted none show ?thesis
    by blast
qed

text \<open>
  C10 as stated fails in four ways. A plan-only run returns 0 although the test is never
  executed. A \<open>TimeoutError\<close> of another call (here the start of the browser) returns 2
  without any run-level timeout. An unexpected error whose message the handler cannot
  print (the print raises \<open>MarkupError\<close>) returns no exit code, and so not 1. A user
  interrupt that reaches the coroutine as \<open>CancelledError\<close>, as it does under
  \<^verbatim>\<open>asyncio.run\<close>, leaves run_test without the exit code 130.
\<close>

theorem run_test_exit_code_counterexamples:
  "fst (run_test (all_return FAILED) True False) = Inr 0
   \<and> wait_for_execute_test_from_requirements
        \<notin> set (calls (snd (run_test (all_return FAILED) True False)))
   \<and> fst (run_test (one_raises browser_controller_start TimeoutError COMPLETED) False False)
       = Inr 2
   \<and> wait_for_execute_test_from_requirements
        \<notin> set (calls (snd (run_test
              (one_raises browser_controller_start TimeoutError COMPLETED) False False)))
   \<and> fst (run_test
          (two_raise browser_controller_navigate Exception
             (console_print Error_during_test_execution) MarkupError COMPLETED) False False)
       = Inl MarkupError
   \<and> fst (run_test (one_raises wait_for_execute_test_from_requirements CancelledError COMPLETED)
          False False)
       = Inl CancelledError"
  by (simp add: run_test_defs all_return_def one_raises_def two_raise_def)

section \<open>Properties of the visual locator\<close>

text \<open>
  C3. A locate call never issues more than one refinement request; and when the oracle's
  single candidate has a confidence below the threshold (0.8 unless configured) and is
  not marked refined, exactly one refinement request is issued and a coordinate is
  returned that is marked refined, whatever the refinement answered.
\<close>

theorem locate_refines_once:
  "length (filter is_refinement (snd (locate orc merge th d s))) \<le> 1
   \<and> (\<forall>c. candidates orc d s = [c]
          \<and> GridCoordinate.confidence c < field_default confidence_threshold_default th
          \<and> \<not> refined c \<longrightarrow>
        length (filter is_refinement (snd (locate orc merge th d s))) = 1
        \<and> (\<exists>g. fst (locate orc merge th d s) = Inr g \<and> refined g))"
  by (auto simp: locate_def Let_def split: list.splits)

theorem locate_refines_once_witness:
  "locate low_confidence_oracle take_refined None ''Login button'' ''shot.png'' =
     (Inr \<lparr>cell = ''M23'', offset_x = 0.25, offset_y = 0.5, confidence = 0.4, refined = True\<rparr>,
      [Locate_request ''Login button'' ''shot.png'',
       Refinement_request \<lparr>cell = ''M23'', offset_x = 0.5, offset_y = 0.5, confidence = 0.5,
                             refined = False\<rparr> ''shot.png''])
   \<and> length (filter is_refinement
         (snd (locate low_confidence_oracle take_refined None ''Login button'' ''shot.png''))) = 1"
proof -
  have run: "locate low_confidence_oracle take_refined None ''Login button'' ''shot.png'' =
     (Inr \<lparr>cell = ''M23'', offset_x = 0.25, offset_y = 0.5, confidence = 0.4, refined = True\<rparr>,
      [Locate_request ''Login button'' ''shot.png'',
       Refinement_request \<lparr>cell = ''M23'', offset_x = 0.5, offset_y = 0.5, confidence = 0.5,
                             refined = False\<rparr> ''shot.png''])"
    by (simp add: locate_def low_confidence_oracle_def take_refined_def field_default_def
          confidence_threshold_default_def)
  have pre: "candidates low_confidence_oracle ''Login button'' ''shot.png''
       = [\<lparr>cell = ''M23'', offset_x = 0.5, offset_y = 0.5, confidence = 0.5, refined = False\<rparr>]
     \<and> GridCoordinate.confidence \<lparr>cell = ''M23'', offset_x = 0.5, offset_y = 0.5,
          confidence = 0.5, refined = False\<rparr> < field_default confidence_threshold_default None
     \<and> \<not> refined \<lparr>cell = ''M23'', offset_x = 0.5, offset_y = 0.5, confidence = 0.5,
          refined = False\<rparr>"
    by (simp add: low_confidence_oracle_def field_default_def confidence_threshold_default_def)
  from locate_refines_once [of low_confidence_oracle take_refined None "''Login button''"
      "''shot.png''"] pre
  have "length (filter is_refinement
         (snd (locate low_confidence_oracle take_refined None ''Login button'' ''shot.png''))) = 1"
    by blast
  with run show ?thesis by blast
qed

section \<open>Properties of the scroll controller\<close>

lemma scroll_counts:
  "ScrollState.attempts (scroll cfg orc p v st) = ScrollState.attempts st + 1
   \<and> ScrollState.max_attempts (scroll cfg orc p v st) = ScrollState.max_attempts st
   \<and> ScrollState.scroll_history (scroll cfg orc p v st)
       = ScrollState.scroll_history st @ [next_action cfg orc p v st]"
  by (simp add: scroll_def Let_def)

lemma scroll_loop_counts:
  assumes "ScrollState.attempts st = int (length (ScrollState.scroll_history st))"
  shows "\<exists>ph r h. scroll_loop cfg orc p st = (ph, r)
           \<and> ScrollResult.scroll_history r = Some h
           \<and> ScrollResult.attempts r = Some (int (length h))
           \<and> int (length h) \<le> max (ScrollState.attempts st) (ScrollState.max_attempts st)
           \<and> (ph = Found \<or> ph = Exhausted)
           \<and> success r = (ph = Found)
           \<and> (ph = Exhausted \<longrightarrow>
                 int (length h) = max (ScrollState.attempts st) (ScrollState.max_attempts st))"
  using assms
proof (induction cfg orc p st rule: scroll_loop.induct)
  case (1 cfg orc p st)
  show ?case
  proof (cases "ScrollState.max_attempts st \<le> ScrollState.attempts st")
    case True
    then show ?thesis
      using "1.prems" by (simp add: scroll_loop.simps [of cfg orc p st] exhausted_def)
  next
    case below: False
    define v where "v = visibility orc (nat (ScrollState.attempts st))"
    show ?thesis
    proof (cases "VisibilityResult.status v = FULLY_VISIBLE")
      case True
      with below show ?thesis
        using "1.prems" by (simp add: scroll_loop.simps [of cfg orc p st] found_def v_def Let_def)
    next
      case False
      define st' where "st' = scroll cfg orc p v st"
      have step: "ScrollState.attempts st' = ScrollState.attempts st + 1"
          "ScrollState.max_attempts st' = ScrollState.max_attempts st"
          "ScrollState.scroll_history st'
             = ScrollState.scroll_history st @ [next_action cfg orc p v st]"
        by (simp_all add: st'_def scroll_counts)
      with "1.prems" have inv: "ScrollState.attempts st' = int (length (ScrollState.scroll_history st'))"
        by simp
      from "1.IH" [OF below v_def False, folded st'_def, OF inv]
      obtain ph r h where res: "scroll_loop cfg orc (visible_percentage v) st' = (ph, r)"
          "ScrollResult.scroll_history r = Some h"
          "ScrollResult.attempts r = Some (int (length h))"
          "int (length h) \<le> max (ScrollState.attempts st') (ScrollState.max_attempts st')"
          "ph = Found \<or> ph = Exhausted" "success r = (ph = Found)"
          "ph = Exhausted \<longrightarrow>
             int (length h) = max (ScrollState.attempts st') (ScrollState.max_attempts st')"
        by blast
      have unfold: "scroll_loop cfg orc p st = scroll_loop cfg orc (visible_percentage v) st'"
        using below False by (simp add: scroll_loop.simps [of cfg orc p st] v_def st'_def Let_def)
      from below step have "max (ScrollState.attempts st') (ScrollState.max_attempts st')
          = max (ScrollState.attempts st) (ScrollState.max_attempts st)"
        by simp
      with res unfold show ?thesis
        by simp
    qed
  qed
qed

lemma scroll_to_element_loop:
  "scroll_to_element cfg orc t kw_max_attempts =
     Inr (scroll_loop cfg orc None
            \<lparr>target_element = t, attempts = 0, max_attempts = field_default 15 kw_max_attempts,
             scroll_history = [], last_direction = None, overshoot_detected = False,
             element_partially_visible = False, last_screenshot_hash = None\<rparr>)"
  by (simp add: scroll_to_element_def ScrollState_init_def field_default_def)

text \<open>
  C6. Every scroll-to-element request returns a result; the attempts it reports are the
  number of scroll actions in the history it reports; that number is at most max_attempts
  (15 unless given); and a request that ends in Exhausted has failed after exactly
  max_attempts scroll actions.
\<close>

theorem scroll_attempts_bounded:
  "\<exists>ph r h. scroll_to_element cfg orc t kw_max_attempts = Inr (ph, r)
      \<and> ScrollResult.scroll_history r = Some h
      \<and> ScrollResult.attempts r = Some (int (length h))
      \<and> length h \<le> nat (field_default 15 kw_max_attempts)
      \<and> (0 \<le> field_default 15 kw_max_attempts \<longrightarrow> int (length h) \<le> field_default 15 kw_max_attempts)
      \<and> (ph = Exhausted \<longrightarrow> \<not> success r \<and> length h = nat (field_default 15 kw_max_attempts))"
proof -
  define st where "st =
    \<lparr>target_element = t, attempts = 0, max_attempts = field_default 15 kw_max_attempts,
     scroll_history = [], last_direction = None, overshoot_detected = False,
     element_partially_visible = False, last_screenshot_hash = None\<rparr>"
  have init: "scroll_to_element cfg orc t kw_max_attempts = Inr (scroll_loop cfg orc None st)"
    unfolding st_def by (rule scroll_to_element_loop)
  have start: "ScrollState.attempts st = 0" "ScrollState.scroll_history st = []"
      "ScrollState.max_attempts st = field_default 15 kw_max_attempts"
    by (simp_all add: st_def)
  then have "ScrollState.attempts st = int (length (ScrollState.scroll_history st))"
    by simp
  from scroll_loop_counts [OF this, of cfg orc None]
  obtain ph r h where res: "scroll_loop cfg orc None st = (ph, r)"
      "ScrollResult.scroll_history r = Some h"
      "ScrollResult.attempts r = Some (int (length h))"
      "int (length h) \<le> max (ScrollState.attempts st) (ScrollState.max_attempts st)"
      "ph = Found \<or> ph = Exhausted" "success r = (ph = Found)"
      "ph = Exhausted \<longrightarrow>
         int (length h) = max (ScrollState.attempts st) (ScrollState.max_attempts st)"
    by blast
  from res(4) start have "length h \<le> nat (field_default 15 kw_max_attempts)"
    by (simp add: max_def split: if_splits)
  moreover from res(4) start
  have "0 \<le> field_default 15 kw_max_attempts \<longrightarrow> int (length h) \<le> field_default 15 kw_max_attempts"
    by (simp add: max_def split: if_splits)
  moreover from res(6,7) start
  have "ph = Exhausted \<longrightarrow> \<not> success r \<and> length h = nat (field_default 15 kw_max_attempts)"
    by (auto simp: max_def split: if_splits)
  ultimately show ?thesis
    using init res(1,2,3) by simp
qed


lemma scroll_loop_never_visible:
  assumes "\<forall>n. VisibilityResult.status (visibility orc n) \<noteq> FULLY_VISIBLE"
  shows "fst (scroll_loop cfg orc p st) = Exhausted"
  using assms
proof (induction cfg orc p st rule: scroll_loop.induct)
  case (1 cfg orc p st)
  show ?case
  proof (cases "ScrollState.max_attempts st \<le> ScrollState.attempts st")
    case True
    then show ?thesis by (simp add: scroll_loop.simps [of cfg orc p st])
  next
    case False
    moreover from "1.prems"
    have hidden: "VisibilityResult.status (visibility orc (nat (ScrollState.attempts st)))
              \<noteq> FULLY_VISIBLE"
      by blast
    moreover note "1.IH" [OF False refl hidden "1.prems"]
    ultimately show ?thesis
      by (simp add: scroll_loop.simps [of cfg orc p st] Let_def)
  qed
qed

theorem scroll_attempts_bounded_witness:
  "\<exists>r h. scroll_to_element example_config never_visible ''Footer link'' None = Inr (Exhausted, r)
      \<and> \<not> success r
      \<and> ScrollResult.attempts r = Some 15
      \<and> ScrollResult.scroll_history r = Some h
      \<and> length h = 15"
proof -
  from scroll_attempts_bounded [of example_config never_visible "''Footer link''" None]
  obtain ph r h where res:
      "scroll_to_element example_config never_visible ''Footer link'' None = Inr (ph, r)"
      "ScrollResult.scroll_history r = Some h"
      "ScrollResult.attempts r = Some (int (length h))"
      "ph = Exhausted \<longrightarrow> \<not> success r \<and> length h = nat (field_default 15 None)"
    by blast
  have "\<forall>n. VisibilityResult.status (visibility never_visible n) \<noteq> FULLY_VISIBLE"
    by (simp add: never_visible_def)
  from scroll_loop_never_visible [OF this, of example_config None] res(1) have "ph = Exhausted"
    by (metis scroll_to_element_loop fst_conv sum.inject(2))
  with res show ?thesis
    by (simp add: field_default_def)
qed


section \<open>Properties of the scheduling and the execution\<close>

lemma dependents_grows: "set ids \<subseteq> set (dependents ts ids)"
proof (induction ts ids rule: dependents.induct)
  case (1 ts ids)
  then show ?case
    by (cases "newly_blocked ts ids = []") (auto simp: dependents.simps [of ts ids])
qed

text \<open>
  The identities found contain the starting ones and, with an identity, those of the steps
  that depend on it: every step that depends on a starting one, directly or indirectly,
  is found.
\<close>

lemma dependents_closed:
  assumes "t \<in> set ts" and "d \<in> set (dependencies t)" and "d \<in> set (dependents ts ids)"
  shows "step_id t \<in> set (dependents ts ids)"
  using assms
proof (induction ts ids rule: dependents.induct)
  case (1 ts ids)
  show ?case
  proof (cases "newly_blocked ts ids = []")
    case True
    with "1.prems" have d: "d \<in> set ids" and res: "dependents ts ids = ids"
      by (simp_all add: dependents.simps [of ts ids])
    have "step_id t \<in> set ids"
    proof (rule ccontr)
      assume "step_id t \<notin> set ids"
      with "1.prems"(1,2) d have "step_id t \<in> set (newly_blocked ts ids)"
        by (auto simp: newly_blocked_def depends_on_def list_ex_iff)
      with True show False by simp
    qed
    with res show ?thesis by simp
  next
    case False
    with "1.IH" "1.prems" show ?thesis
      by (simp add: dependents.simps [of ts ids])
  qed
qed

lemma newly_blocked_not_run:
  assumes "ran_after_dependencies st"
      and "\<forall>j \<in> set ids. j \<notin> set (completed_steps st)"
      and "j \<in> set (newly_blocked (steps (test_plan st)) ids)"
  shows "j \<notin> set (completed_steps st) \<and> j \<notin> set (failed_steps st)"
proof -
  from assms(3) obtain t where t: "t \<in> set (steps (test_plan st))" "depends_on ids t"
      "j = step_id t"
    by (auto simp: newly_blocked_def)
  from t(2) obtain d where d: "d \<in> set (dependencies t)" "d \<in> set ids"
    by (auto simp: depends_on_def list_ex_iff)
  with assms(2) have "d \<notin> set (completed_steps st)"
    by blast
  with d(1) have "\<not> set (dependencies t) \<subseteq> set (completed_steps st)"
    by blast
  with assms(1) t(1) have "step_id t \<notin> set (completed_steps st) \<union> set (failed_steps st)"
    unfolding ran_after_dependencies_def by blast
  with t(3) show ?thesis by simp
qed

lemma dependents_not_run:
  assumes "ran_after_dependencies st"
      and "ts = steps (test_plan st)"
      and "\<forall>j \<in> set ids. j \<notin> set (completed_steps st)"
  shows "\<forall>j \<in> set (dependents ts ids).
           j \<notin> set (completed_steps st) \<and> (j \<in> set ids \<or> j \<notin> set (failed_steps st))"
  using assms(2,3)
proof (induction ts ids rule: dependents.induct)
  case (1 ts ids)
  show ?case
  proof (cases "newly_blocked ts ids = []")
    case True
    then have "dependents ts ids = ids"
      by (simp add: dependents.simps [of ts ids])
    with "1.prems"(2) show ?thesis
      by simp
  next
    case False
    then have unfold: "dependents ts ids = dependents ts (ids @ newly_blocked ts ids)"
      by (simp add: dependents.simps [of ts ids])
    from "1.prems" newly_blocked_not_run [OF assms(1), of ids]
    have new: "\<forall>j \<in> set (newly_blocked ts ids).
                 j \<notin> set (completed_steps st) \<and> j \<notin> set (failed_steps st)"
      by blast
    with "1.prems" have "\<forall>j \<in> set (ids @ newly_blocked ts ids). j \<notin> set (completed_steps st)"
      by auto
    from "1.IH" [OF False "1.prems"(1) this] new show ?thesis
      unfolding unfold by auto
  qed
qed

lemma transitive_dependents_not_run:
  assumes "ran_after_dependencies st" and "i \<notin> set (completed_steps st)"
      and "j \<in> set (transitive_dependents (test_plan st) i)"
  shows "j \<noteq> i \<and> j \<notin> set (completed_steps st) \<and> j \<notin> set (failed_steps st)"
proof -
  from assms(2) have "\<forall>k \<in> set [i]. k \<notin> set (completed_steps st)"
    by simp
  from dependents_not_run [OF assms(1) refl this] assms(3)
  show ?thesis
    by (auto simp: transitive_dependents_def)
qed

lemma invariant_init: "invariant (TestState_init plan)"
  by (simp add: invariant_def mutually_exclusive_def ran_after_dependencies_def TestState_init_def)

lemma same_step:
  assumes "distinct (map step_id ts)" and "t \<in> set ts" and "u \<in> set ts"
      and "step_id u = step_id t"
  shows "u = t"
  using assms by (meson distinct_map inj_onD)

lemma invariant_execute_step:
  assumes ids: "distinct (map step_id (steps (test_plan st)))"
      and inv: "invariant st"
      and t: "t \<in> set (steps (test_plan st))" "runnable st t"
  shows "invariant (execute_step ex t st)"
proof -
  from t(2) have fresh: "step_id t \<notin> set (completed_steps st)"
      "step_id t \<notin> set (failed_steps st)" "step_id t \<notin> set (skipped_steps st)"
      and deps: "set (dependencies t) \<subseteq> set (completed_steps st)"
    by (auto simp: runnable_def resolved_def dependencies_completed_def list_all_iff)
  from inv have excl: "mutually_exclusive st" and ran: "ran_after_dependencies st"
    by (simp_all add: invariant_def)
  have deps_of: "set (dependencies u) \<subseteq> set (completed_steps st)"
    if "u \<in> set (steps (test_plan st))"
      and "step_id u \<in> insert (step_id t) (set (completed_steps st) \<union> set (failed_steps st))"
    for u
  proof (cases "step_id u = step_id t")
    case True
    with same_step [OF ids t(1) that(1)] deps show ?thesis by simp
  next
    case False
    with that ran show ?thesis
      unfolding ran_after_dependencies_def by blast
  qed
  show ?thesis
  proof (cases "fst (attempt_step ex t 0)")
    case True
    then have "mutually_exclusive (execute_step ex t st)"
      using excl fresh by (simp add: execute_step_def mutually_exclusive_def)
    moreover from True have "ran_after_dependencies (execute_step ex t st)"
      using deps_of by (auto simp: execute_step_def ran_after_dependencies_def)
    ultimately show ?thesis by (simp add: invariant_def)
  next
    case failed: False
    show ?thesis
    proof (cases "optional t")
      case True
      with failed have "mutually_exclusive (execute_step ex t st)"
        using excl fresh by (simp add: execute_step_def mutually_exclusive_def)
      moreover from True failed have "ran_after_dependencies (execute_step ex t st)"
        using deps_of by (auto simp: execute_step_def ran_after_dependencies_def)
      ultimately show ?thesis by (simp add: invariant_def)
    next
      case False
      let ?new = "filter (\<lambda>j. j \<notin> set (skipped_steps st))
                    (transitive_dependents (test_plan st) (step_id t))"
      have new: "j \<noteq> step_id t \<and> j \<notin> set (completed_steps st) \<and> j \<notin> set (failed_steps st)"
        if "j \<in> set ?new" for j
        using transitive_dependents_not_run [OF ran fresh(1), of j] that by simp
      have state: "completed_steps (execute_step ex t st) = completed_steps st"
          "failed_steps (execute_step ex t st) = failed_steps st @ [step_id t]"
          "skipped_steps (execute_step ex t st) = skipped_steps st @ ?new"
        using False failed by (simp_all add: execute_step_def)
      have "mutually_exclusive (execute_step ex t st)"
        unfolding mutually_exclusive_def state
        using excl fresh new by (auto simp: mutually_exclusive_def)
      moreover have "ran_after_dependencies (execute_step ex t st)"
        unfolding ran_after_dependencies_def state execute_step_plan
        using deps_of by auto
      ultimately show ?thesis by (simp add: invariant_def)
    qed
  qed
qed

lemma run_invariant:
  assumes "distinct (map step_id (steps (test_plan st)))" and "invariant st"
  shows "\<forall>s \<in> set (fst (run ex st)). invariant s \<and> test_plan s = test_plan st"
  using assms
proof (induction ex st rule: run.induct)
  case (1 ex st)
  show ?case
  proof (cases "next_runnable st")
    case (Inl failure)
    with "1.prems" show ?thesis
      by (simp add: run.simps [of ex st])
  next
    case (Inr next_step)
    show ?thesis
    proof (cases next_step)
      case None
      with Inr "1.prems" show ?thesis
        by (simp add: run.simps [of ex st])
    next
      case (Some t)
      with Inr have nxt: "next_runnable st = Inr (Some t)"
        by simp
      from next_runnable_Some [OF nxt] have t: "t \<in> set (steps (test_plan st))" "runnable st t"
        by simp_all
      from invariant_execute_step [OF "1.prems" t] have "invariant (execute_step ex t st)" .
      with "1.IH" [OF Inr Some] "1.prems"(1)
      have "\<forall>s \<in> set (fst (run ex (execute_step ex t st))).
              invariant s \<and> test_plan s = test_plan st"
        by simp
      with nxt "1.prems" show ?thesis
        by (simp add: run.simps [of ex st] split: prod.splits)
    qed
  qed
qed

lemma run_not_empty: "fst (run ex st) \<noteq> []"
  by (simp add: run.simps [of ex st] split: sum.splits option.splits prod.splits)

lemma categories_resolved:
  assumes "mutually_exclusive st" and "resolved st (step_id t)"
  shows "length (categories st t) = 1"
  using assms by (auto simp: categories_def mutually_exclusive_def resolved_def)


lemma scenario_A_run:
  "map (\<lambda>st. (completed_steps st, failed_steps st, skipped_steps st))
       (fst (run step_1_fails (TestState_init scenario_A)))
     = [([], [], []), ([], [1], [3]), ([2], [1], [3])]
   \<and> snd (run step_1_fails (TestState_init scenario_A)) = None"
  by (simp add: run.simps attempt_step.simps dependents.simps newly_blocked_def
        next_runnable_def runnable_def resolved_def unresolved_def
        dependencies_completed_def execute_step_def transitive_dependents_def depends_on_def
        TestState_init_def scenario_A_def example_plan_def example_step_def step_1_fails_def)

lemma scenario_A_final:
  "completed_steps (last (fst (run step_1_fails (TestState_init scenario_A)))) = [2]
   \<and> failed_steps (last (fst (run step_1_fails (TestState_init scenario_A)))) = [1]
   \<and> skipped_steps (last (fst (run step_1_fails (TestState_init scenario_A)))) = [3]"
  by (simp add: run.simps attempt_step.simps dependents.simps newly_blocked_def
        next_runnable_def runnable_def resolved_def unresolved_def
        dependencies_completed_def execute_step_def transitive_dependents_def depends_on_def
        TestState_init_def scenario_A_def example_plan_def example_step_def step_1_fails_def)



end
